theory Spec2Isabelle
  imports Complex_Main
begin

section \<open>Python built-ins used by bot.py\<close>

text \<open>
  Strings are lists of characters with code points below 256. The functions of this
  section model the built-ins of Python that \<^verbatim>\<open>src/bot.py\<close> calls on strings and lists.
\<close>

definition isspace :: "char \<Rightarrow> bool" where
  \<comment> \<open>\<^verbatim>\<open>str.isspace\<close> on one character: TAB, LF, VT, FF, CR, FS, GS, RS, US, space, NEL, NBSP.\<close>
  "isspace c = (c \<in> set [CHR 0x09, CHR 0x0A, CHR 0x0B, CHR 0x0C, CHR 0x0D, CHR 0x1C,
                          CHR 0x1D, CHR 0x1E, CHR 0x1F, CHR 0x20, CHR 0x85, CHR 0xA0])"

definition strip :: "string \<Rightarrow> string" where
  \<comment> \<open>\<^verbatim>\<open>s.strip()\<close>\<close>
  "strip s = rev (dropWhile isspace (rev (dropWhile isspace s)))"

fun split_on :: "char \<Rightarrow> string \<Rightarrow> string list" where
  \<comment> \<open>\<^verbatim>\<open>s.split(c)\<close> with a one-character separator: never empty, \<^verbatim>\<open>"".split(",") == [""]\<close>\<close>
  "split_on c [] = [[]]"
| "split_on c (x # xs) =
     (if x = c then [] # split_on c xs
      else (case split_on c xs of
              [] \<Rightarrow> [[x]]
            | p # ps \<Rightarrow> (x # p) # ps))"

definition split_once :: "char \<Rightarrow> string \<Rightarrow> string list" where
  \<comment> \<open>\<^verbatim>\<open>s.split(c, 1)\<close>: cut at the first separator only\<close>
  "split_once c s =
     (if c \<in> set s then [takeWhile (\<lambda>x. x \<noteq> c) s, tl (dropWhile (\<lambda>x. x \<noteq> c) s)]
      else [s])"

fun str_nat :: "nat \<Rightarrow> string" where
  "str_nat n = (if n < 10 then [''0123456789'' ! n]
                else str_nat (n div 10) @ [''0123456789'' ! (n mod 10)])"

declare str_nat.simps [simp del]

definition str_int :: "int \<Rightarrow> string" where
  \<comment> \<open>\<^verbatim>\<open>str(i)\<close> for an int\<close>
  "str_int i = (if i < 0 then CHR ''-'' # str_nat (nat (- i)) else str_nat (nat i))"

definition isdigit :: "char \<Rightarrow> bool" where
  "isdigit c = (c \<in> set ''0123456789'')"

definition digit_val :: "char \<Rightarrow> nat" where
  "digit_val c = of_char c - 48"

fun int_digits :: "nat \<Rightarrow> string \<Rightarrow> nat option" where
  \<comment> \<open>the rest of a decimal literal after its first digit: digits, each optionally
      preceded by one underscore\<close>
  "int_digits acc [] = Some acc"
| "int_digits acc [c] = (if isdigit c then Some (10 * acc + digit_val c) else None)"
| "int_digits acc (c # d # cs) =
     (if isdigit c then int_digits (10 * acc + digit_val c) (d # cs)
      else if c = CHR ''_'' \<and> isdigit d then int_digits (10 * acc + digit_val d) cs
      else None)"

definition int_nat :: "string \<Rightarrow> nat option" where
  "int_nat s = (case s of [] \<Rightarrow> None
                | c # cs \<Rightarrow> if isdigit c then int_digits (digit_val c) cs else None)"

definition py_int :: "string \<Rightarrow> int option" where
  \<comment> \<open>\<^verbatim>\<open>int(s)\<close> on a stripped string; \<open>None\<close> is \<^verbatim>\<open>ValueError\<close>\<close>
  "py_int s =
     (case s of
        [] \<Rightarrow> None
      | c # cs \<Rightarrow>
          if c = CHR ''+'' then map_option int (int_nat cs)
          else if c = CHR ''-'' then map_option (\<lambda>n. - int n) (int_nat cs)
          else map_option int (int_nat s))"

definition last_slice :: "int \<Rightarrow> 'a list \<Rightarrow> 'a list" where
  \<comment> \<open>\<^verbatim>\<open>h[-m:]\<close>: the last \<open>m\<close> elements when \<open>m > 0\<close>; for \<open>m \<le> 0\<close> the slice starts
      at index \<open>-m\<close> from the front (the whole list when \<open>m = 0\<close>)\<close>
  "last_slice m h = (if m > 0 then drop (length h - nat m) h else drop (nat (- m)) h)"

fun first_index :: "('a \<Rightarrow> bool) \<Rightarrow> 'a list \<Rightarrow> nat option" where
  \<comment> \<open>position of the element that \<^verbatim>\<open>next(x for x in xs if P(x))\<close> yields\<close>
  "first_index P [] = None"
| "first_index P (x # xs) = (if P x then Some 0 else map_option Suc (first_index P xs))"

fun remove_first :: "'a \<Rightarrow> 'a list \<Rightarrow> 'a list" where
  \<comment> \<open>\<^verbatim>\<open>xs.remove(x)\<close> when \<open>x\<close> occurs: only the first occurrence goes\<close>
  "remove_first x [] = []"
| "remove_first x (y # ys) = (if x = y then ys else y # remove_first x ys)"

section \<open>The state document\<close>

record message =
  role :: string
  content :: string

record report =
  report_id :: string
  user_id :: int
  user_name :: string
  channel_url :: string
  created_at :: string
  status :: string
  response_by :: "int option"
  response_at :: "string option"

text \<open>
  \<^verbatim>\<open>STATE\<close> is a dict with up to three keys; the code reaches each through
  \<^verbatim>\<open>get\<close> or \<^verbatim>\<open>setdefault\<close>, so a key may be absent (\<open>None\<close>).
\<close>

record state =
  moderated_chats :: "int list option"
  histories :: "(string \<rightharpoonup> message list) option"
  reports :: "report list option"

definition DEFAULT_STATE :: state where
  "DEFAULT_STATE = \<lparr>moderated_chats = Some [], histories = Some Map.empty, reports = Some []\<rparr>"

text \<open>
  The configuration read from the environment, and the two functions of the \<^verbatim>\<open>json\<close>
  module, which are not part of the repository: \<open>json_dump\<close> gives the contents written
  for a document and \<open>json_load\<close> the document read from contents (\<open>None\<close> when decoding
  raises). File contents have the abstract type \<open>'f\<close>. Opening, writing and reading
  the file are taken to succeed; \<open>files\<close> maps a path to the contents of the file there.
\<close>

record 'f env =
  STATE_FILE :: string
  RECOVERY_ADMIN_IDS :: string
  json_dump :: "state \<Rightarrow> 'f"
  json_load :: "'f \<Rightarrow> state option"

record 'f world =
  STATE :: state
  files :: "string \<rightharpoonup> 'f"

datatype load_error = JSONDecodeError

definition save_state :: "'f env \<Rightarrow> state \<Rightarrow> (string \<rightharpoonup> 'f) \<Rightarrow> (string \<rightharpoonup> 'f)" where
  "save_state e st fs = fs(STATE_FILE e \<mapsto> json_dump e st)"

definition load_state :: "'f env \<Rightarrow> (string \<rightharpoonup> 'f) \<Rightarrow> (load_error + state) \<times> (string \<rightharpoonup> 'f)" where
  "load_state e fs =
     (let fs1 = (if fs (STATE_FILE e) = None then save_state e DEFAULT_STATE fs else fs)
      in case fs1 (STATE_FILE e) of
           None \<Rightarrow> (Inl JSONDecodeError, fs1)
         | Some c \<Rightarrow>
             (case json_load e c of
                None \<Rightarrow> (Inl JSONDecodeError, fs1)
              | Some d \<Rightarrow> (Inr d, fs1)))"

definition persist :: "'f env \<Rightarrow> 'f world \<Rightarrow> 'f world" where
  \<comment> \<open>\<^verbatim>\<open>save_state(STATE)\<close>\<close>
  "persist e w = w\<lparr>files := save_state e (STATE w) (files w)\<rparr>"

section \<open>Moderation flags and histories\<close>

definition chats_of :: "state \<Rightarrow> int list" where
  \<comment> \<open>\<^verbatim>\<open>STATE.get("moderated_chats", [])\<close>\<close>
  "chats_of st = (case moderated_chats st of None \<Rightarrow> [] | Some arr \<Rightarrow> arr)"

definition is_chat_moderated :: "'f world \<Rightarrow> int \<Rightarrow> bool" where
  "is_chat_moderated w chat_id = (chat_id \<in> set (chats_of (STATE w)))"

definition add_moderated_chat :: "'f env \<Rightarrow> int \<Rightarrow> 'f world \<Rightarrow> 'f world" where
  "add_moderated_chat e chat_id w =
     (let arr = chats_of (STATE w)
      in if chat_id \<notin> set arr
         then persist e (w\<lparr>STATE := (STATE w)\<lparr>moderated_chats := Some (arr @ [chat_id])\<rparr>\<rparr>)
         else w\<lparr>STATE := (STATE w)\<lparr>moderated_chats := Some arr\<rparr>\<rparr>)"

definition remove_moderated_chat :: "'f env \<Rightarrow> int \<Rightarrow> 'f world \<Rightarrow> 'f world" where
  "remove_moderated_chat e chat_id w =
     (let arr = chats_of (STATE w)
      in if chat_id \<in> set arr
         then persist e (w\<lparr>STATE := (STATE w)\<lparr>moderated_chats := Some (remove_first chat_id arr)\<rparr>\<rparr>)
         else w\<lparr>STATE := (STATE w)\<lparr>moderated_chats := Some arr\<rparr>\<rparr>)"

datatype chat_ref = ChatInt int | ChatStr string

fun str_chat :: "chat_ref \<Rightarrow> string" where
  \<comment> \<open>\<^verbatim>\<open>str(chat_id)\<close>: the callers pass an int or a string that is already \<^verbatim>\<open>str\<close> of one\<close>
  "str_chat (ChatInt i) = str_int i"
| "str_chat (ChatStr s) = s"

definition hists_of :: "state \<Rightarrow> (string \<rightharpoonup> message list)" where
  \<comment> \<open>\<^verbatim>\<open>STATE.get("histories", {})\<close>\<close>
  "hists_of st = (case histories st of None \<Rightarrow> Map.empty | Some hs \<Rightarrow> hs)"

definition history_of :: "state \<Rightarrow> string \<Rightarrow> message list" where
  \<comment> \<open>\<^verbatim>\<open>STATE.get("histories", {}).get(key, [])\<close>\<close>
  "history_of st k = (case hists_of st k of None \<Rightarrow> [] | Some h \<Rightarrow> h)"

definition push_history :: "'f env \<Rightarrow> chat_ref \<Rightarrow> string \<Rightarrow> string \<Rightarrow> int \<Rightarrow> 'f world \<Rightarrow> 'f world" where
  "push_history e chat_id r c max_len w =
     (let k = str_chat chat_id;
          h = history_of (STATE w) k @ [\<lparr>role = r, content = c\<rparr>];
          h' = (if int (length h) > max_len then last_slice max_len h else h)
      in persist e (w\<lparr>STATE := (STATE w)\<lparr>histories := Some ((hists_of (STATE w))(k \<mapsto> h'))\<rparr>\<rparr>))"

section \<open>Recovery reports\<close>

record user =
  tg_id :: int
  username :: "string option"
  first_name :: string
  last_name :: "string option"

definition display_name :: "user \<Rightarrow> string" where
  \<comment> \<open>\<^verbatim>\<open>user.username or f"{user.first_name} {getattr(user, 'last_name', '')}".strip()\<close>;
      a Telegram user always has the attribute \<^verbatim>\<open>last_name\<close>, and the f-string prints
      the value \<^verbatim>\<open>None\<close> as the word\<close>
  "display_name u =
     (let fallback = strip (first_name u @ '' '' @ (case last_name u of None \<Rightarrow> ''None'' | Some l \<Rightarrow> l))
      in case username u of
           None \<Rightarrow> fallback
         | Some n \<Rightarrow> if n \<noteq> [] then n else fallback)"

definition reports_of :: "state \<Rightarrow> report list" where
  \<comment> \<open>the list that \<^verbatim>\<open>STATE.setdefault("reports", [])\<close> returns\<close>
  "reports_of st = (case reports st of None \<Rightarrow> [] | Some rs \<Rightarrow> rs)"

definition setdefault_reports :: "'f world \<Rightarrow> 'f world" where
  \<comment> \<open>the effect of \<^verbatim>\<open>STATE.setdefault("reports", [])\<close> on \<^verbatim>\<open>STATE\<close>\<close>
  "setdefault_reports w = w\<lparr>STATE := (STATE w)\<lparr>reports := Some (reports_of (STATE w))\<rparr>\<rparr>"

definition create_report ::
  "'f env \<Rightarrow> user \<Rightarrow> string \<Rightarrow> string \<Rightarrow> string \<Rightarrow> 'f world \<Rightarrow> report \<times> 'f world" where
  \<comment> \<open>\<^verbatim>\<open>_create_report(user, channel_url)\<close>; \<open>uuid_hex\<close> is \<^verbatim>\<open>uuid.uuid4().hex\<close> and
      \<open>now\<close> is \<^verbatim>\<open>datetime.utcnow().isoformat()\<close>, both drawn from the environment\<close>
  "create_report e u url uuid_hex now w =
     (let r = \<lparr>report_id = take 8 uuid_hex,
                user_id = tg_id u,
                user_name = display_name u,
                channel_url = url,
                created_at = now @ ''Z'',
                status = ''pending'',
                response_by = None,
                response_at = None\<rparr>
      in (r, persist e (w\<lparr>STATE := (STATE w)\<lparr>reports := Some (reports_of (STATE w) @ [r])\<rparr>\<rparr>)))"

definition find_report :: "report list \<Rightarrow> string \<Rightarrow> nat option" where
  \<comment> \<open>\<^verbatim>\<open>next((r for r in reports if r["id"] == report_id), None)\<close>: the position of the
      dict the expression returns, so that the caller's later writes reach the list\<close>
  "find_report rs rid = first_index (\<lambda>r. report_id r = rid) rs"

fun admin_ids_of :: "string list \<Rightarrow> int set" where
  "admin_ids_of [] = {}"
| "admin_ids_of (p # ps) =
     (let q = strip p
      in if q = [] then admin_ids_of ps
         else case py_int q of
                None \<Rightarrow> admin_ids_of ps
              | Some n \<Rightarrow> insert n (admin_ids_of ps))"

definition admin_ids_set :: "string \<Rightarrow> int set" where
  \<comment> \<open>\<^verbatim>\<open>_admin_ids_set()\<close> on the value of \<^verbatim>\<open>RECOVERY_ADMIN_IDS\<close> (\<^verbatim>\<open>""\<close> when unset)\<close>
  "admin_ids_set s = admin_ids_of (split_on CHR '','' s)"

record callback_query =
  data :: "string option"
  from_id :: int

datatype outcome =
    Ignored
  | Unauthorized
  | NotFound
  | AlreadyAnswered
  | Resolved report

text \<open>
  The handler of the two buttons. The messages it sends are summarised by the outcome:
  \<open>Unauthorized\<close> is the alert "No estas autorizado para responder este reporte.",
  \<open>NotFound\<close> the alert "Reporte no encontrado.", \<open>AlreadyAnswered\<close> the alert
  "Este reporte ya fue respondido.", and \<open>Resolved r\<close> the edit of the admin message and
  the notification of the reporting user about \<open>r\<close> (both wrapped in \<^verbatim>\<open>try\<close>).
  The calls to Telegram that come before the writes to the state (\<^verbatim>\<open>query.answer()\<close>) are
  taken to return.
\<close>

definition resolved :: "report \<Rightarrow> string \<Rightarrow> int \<Rightarrow> string \<Rightarrow> report" where
  \<comment> \<open>the three writes that answer a report: \<^verbatim>\<open>status\<close> by the action,
      \<^verbatim>\<open>response_by\<close> and \<^verbatim>\<open>response_at\<close>\<close>
  "resolved r action clicker now =
     r\<lparr>status := (if action = ''approve'' then ''provided'' else ''denied''),
       response_by := Some clicker,
       response_at := Some (now @ ''Z'')\<rparr>"

definition parse_callback :: "callback_query \<Rightarrow> (string \<times> string) option" where
  \<comment> \<open>the first lines of the handler: \<^verbatim>\<open>parts = (query.data or "").split(":")\<close>, given up
      unless there are three parts and the first is \<^verbatim>\<open>recovery\<close>; the result is
      \<^verbatim>\<open>(report_id, action)\<close>\<close>
  "parse_callback q =
     (let parts = split_on CHR '':'' (case data q of None \<Rightarrow> [] | Some d \<Rightarrow> d)
      in if length parts \<noteq> 3 \<or> parts ! 0 \<noteq> ''recovery'' then None
         else Some (parts ! 1, parts ! 2))"

definition recovery_callback_handler ::
  "'f env \<Rightarrow> callback_query \<Rightarrow> string \<Rightarrow> 'f world \<Rightarrow> outcome \<times> 'f world" where
  \<comment> \<open>\<open>now\<close> is \<^verbatim>\<open>datetime.utcnow().isoformat()\<close> at the time of the answer\<close>
  "recovery_callback_handler e q now w =
     (case parse_callback q of
        None \<Rightarrow> (Ignored, w)
      | Some (rid, action) \<Rightarrow>
          let clicker_id = from_id q;
              admins = admin_ids_set (RECOVERY_ADMIN_IDS e)
          in if admins \<noteq> {} \<and> clicker_id \<notin> admins then (Unauthorized, w)
             else
               let w1 = setdefault_reports w;
                   rs = reports_of (STATE w1)
               in case find_report rs rid of
                    None \<Rightarrow> (NotFound, w1)
                  | Some i \<Rightarrow>
                      if status (rs ! i) \<noteq> ''pending'' then (AlreadyAnswered, w1)
                      else
                        let r = resolved (rs ! i) action clicker_id now
                        in (Resolved r,
                            persist e (w1\<lparr>STATE := (STATE w1)\<lparr>reports := Some (rs[i := r])\<rparr>\<rparr>)))"

definition status_reply :: "report \<Rightarrow> string" where
  "status_reply r =
     ''Report ID: '' @ report_id r @ [CHR 0x0A] @
     ''Usuario: @'' @ user_name r @ '' (id: '' @ str_int (user_id r) @ '')'' @ [CHR 0x0A] @
     ''Canal: '' @ channel_url r @ [CHR 0x0A] @
     ''Creado: '' @ created_at r @ [CHR 0x0A] @
     ''Estado: '' @ status r @ [CHR 0x0A] @
     (case response_by r of
        None \<Rightarrow> []
      | Some b \<Rightarrow>
          if b = 0 then []
          else ''Respondido por: '' @ str_int b @ '' a las '' @
               (case response_at r of None \<Rightarrow> ''None'' | Some t \<Rightarrow> t) @ [CHR 0x0A])"

definition status_arg :: "string option \<Rightarrow> string option" where
  \<comment> \<open>the argument of the command: \<^verbatim>\<open>args = (text or "").split(" ", 1)\<close>, then
      \<^verbatim>\<open>args[1].strip()\<close>; \<open>None\<close> when it is missing or blank\<close>
  "status_arg txt =
     (let args = split_once CHR '' '' (case txt of None \<Rightarrow> [] | Some t \<Rightarrow> t)
      in if length args < 2 \<or> strip (args ! 1) = [] then None
         else Some (strip (args ! 1)))"

definition recovery_status :: "string option \<Rightarrow> 'f world \<Rightarrow> string \<times> 'f world" where
  \<comment> \<open>the reply sent for the message text of a \<^verbatim>\<open>/recovery_status\<close> command\<close>
  "recovery_status txt w =
     (case status_arg txt of
        None \<Rightarrow>
          (''Uso: /recovery_status <report_id>'' @ [CHR 0x0A] @ ''Ej: /recovery_status a1b2c3d4'', w)
      | Some rid \<Rightarrow>
          let w1 = setdefault_reports w;
              rs = reports_of (STATE w1)
          in case find_report rs rid of
               None \<Rightarrow> (''Reporte no encontrado.'', w1)
             | Some i \<Rightarrow> (status_reply (rs ! i), w1))"

section \<open>The generation client\<close>

datatype pyfloat = Finite rat | Infinite | NaN

datatype json =
    JNull
  | JBool bool
  | JInt int
  | JFloat pyfloat
  | JStr string
  | JList "json list"
  | JDict "(string \<times> json) list"

fun truthy :: "json \<Rightarrow> bool" where
  "truthy JNull = False"
| "truthy (JBool b) = b"
| "truthy (JInt i) = (i \<noteq> 0)"
| "truthy (JFloat f) = (f \<noteq> Finite 0)"
| "truthy (JStr s) = (s \<noteq> [])"
| "truthy (JList xs) = (xs \<noteq> [])"
| "truthy (JDict kvs) = (kvs \<noteq> [])"

definition py_or :: "json \<Rightarrow> json \<Rightarrow> json" where
  \<comment> \<open>\<^verbatim>\<open>a or b\<close>\<close>
  "py_or a b = (if truthy a then a else b)"

fun dict_get :: "json \<Rightarrow> string \<Rightarrow> json" where
  \<comment> \<open>\<^verbatim>\<open>d.get(k)\<close> on a dict: \<^verbatim>\<open>None\<close> when the key is absent\<close>
  "dict_get (JDict kvs) k = (case map_of kvs k of None \<Rightarrow> JNull | Some v \<Rightarrow> v)"
| "dict_get _ k = JNull"

fun is_dict :: "json \<Rightarrow> bool" where
  "is_dict (JDict kvs) = True"
| "is_dict _ = False"

datatype http_result = ClientError | Body string

datatype hf_error =
    ApiKeyMissing
  | TransportError
  | NonJsonResponse string
  | HuggingFaceError json

definition hf_result :: "(json \<Rightarrow> string) \<Rightarrow> json \<Rightarrow> hf_error + json" where
  \<comment> \<open>what the function makes of the decoded body \<open>d\<close> (the code after \<^verbatim>\<open>json.loads\<close>);
      \<open>py_str\<close> is the built-in \<^verbatim>\<open>str\<close>\<close>
  "hf_result py_str d =
     (if is_dict d \<and> truthy (dict_get d ''error'') then Inl (HuggingFaceError (dict_get d ''error''))
      else
        (case d of
           JList (x # xs) \<Rightarrow>
             if is_dict x then Inr (py_or (dict_get x ''generated_text'') (JStr []))
             else Inr (JStr (py_str d))
         | JDict kvs \<Rightarrow>
             Inr (py_or (py_or (dict_get d ''generated_text'') (dict_get d ''text''))
                        (JStr (py_str d)))
         | _ \<Rightarrow> Inr (JStr (py_str d))))"

definition hf_generate_text ::
  "(json \<Rightarrow> string) \<Rightarrow> (string \<Rightarrow> json option) \<Rightarrow> string option \<Rightarrow> http_result \<Rightarrow> hf_error + json" where
  \<comment> \<open>\<open>json_loads\<close> is \<^verbatim>\<open>json.loads\<close> (\<open>None\<close> when it raises); \<open>api_key\<close> is
      \<^verbatim>\<open>HUGGINGFACE_API_KEY\<close> and \<open>resp\<close> what the HTTP exchange for the prompt gave:
      an exception of the client or the body of the response\<close>
  "hf_generate_text py_str json_loads api_key resp =
     (if api_key = None \<or> api_key = Some [] then Inl ApiKeyMissing
      else case resp of
             ClientError \<Rightarrow> Inl TransportError
           | Body txt \<Rightarrow>
               (case json_loads txt of
                  None \<Rightarrow> Inl (NonJsonResponse (take 400 txt))
                | Some d \<Rightarrow> hf_result py_str d))"

section \<open>Runs of the bot\<close>

datatype event =
    AddModerated int
  | RemoveModerated int
  | PushHistory chat_ref string string int
  | CreateReport user string string string
  | Callback callback_query string
  | StatusQuery "string option"

fun step :: "'f env \<Rightarrow> event \<Rightarrow> 'f world \<Rightarrow> 'f world" where
  "step e (AddModerated c) w = add_moderated_chat e c w"
| "step e (RemoveModerated c) w = remove_moderated_chat e c w"
| "step e (PushHistory c r m n) w = push_history e c r m n w"
| "step e (CreateReport u url uuid_hex now) w = snd (create_report e u url uuid_hex now w)"
| "step e (Callback q now) w = snd (recovery_callback_handler e q now w)"
| "step e (StatusQuery txt) w = snd (recovery_status txt w)"

definition run :: "'f env \<Rightarrow> event list \<Rightarrow> 'f world \<Rightarrow> 'f world" where
  "run e evs w = fold (step e) evs w"

definition ids_of :: "state \<Rightarrow> string list" where
  \<comment> \<open>the \<^verbatim>\<open>id\<close> fields of the reports, in list order\<close>
  "ids_of st = map report_id (reports_of st)"

fun drawn_ids :: "event list \<Rightarrow> string list" where
  \<comment> \<open>the ids that the calls of \<^verbatim>\<open>_create_report\<close> in a run cut from their UUIDs\<close>
  "drawn_ids [] = []"
| "drawn_ids (CreateReport u url uuid_hex now # evs) = take 8 uuid_hex # drawn_ids evs"
| "drawn_ids (ev # evs) = drawn_ids evs"

section \<open>Facts about the built-ins\<close>

lemma split_on_nonempty: "split_on c s \<noteq> []"
  by (induction s) (auto split: list.splits)

lemma first_index_None: "first_index P xs = None \<longleftrightarrow> (\<forall>x\<in>set xs. \<not> P x)"
  by (induction xs) auto

lemma first_index_Some:
  "first_index P xs = Some i \<Longrightarrow> i < length xs \<and> P (xs ! i) \<and> (\<forall>j<i. \<not> P (xs ! j))"
proof (induction xs arbitrary: i)
  case Nil
  then show ?case by simp
next
  case (Cons x xs)
  show ?case
  proof (cases "P x")
    case True
    with Cons.prems show ?thesis by simp
  next
    case False
    with Cons.prems obtain k where k: "first_index P xs = Some k" "i = Suc k"
      by auto
    from Cons.IH [OF k(1)] False k(2) show ?thesis
      by (auto simp: less_Suc_eq_0_disj)
  qed
qed

section \<open>The conversation history\<close>

lemma history_of_push:
  "history_of (STATE (push_history e c r m n w)) (str_chat c) =
     (let h = history_of (STATE w) (str_chat c) @ [\<lparr>role = r, content = m\<rparr>]
      in if int (length h) > n then last_slice n h else h)"
  by (simp add: push_history_def persist_def history_of_def hists_of_def Let_def)

text \<open>
  C3. With the default \<^verbatim>\<open>max_len\<close> of 10, the history of the chat after \<^verbatim>\<open>push_history\<close>
  is the old history with the new entry appended, cut down to its last 10 elements:
  everything before them is dropped, the rest keeps its order, and the length is at
  most 10.
\<close>

theorem push_history_ring_buffer:
  "history_of (STATE (push_history e c r m 10 w)) (str_chat c) =
     drop (length (history_of (STATE w) (str_chat c) @ [\<lparr>role = r, content = m\<rparr>]) - 10)
          (history_of (STATE w) (str_chat c) @ [\<lparr>role = r, content = m\<rparr>])
   \<and> length (history_of (STATE (push_history e c r m 10 w)) (str_chat c)) \<le> 10"
  by (simp add: history_of_push last_slice_def Let_def)

section \<open>Creating a report\<close>

text \<open>
  C4. \<^verbatim>\<open>_create_report\<close> appends exactly one report, the one it returns, to the reports;
  that report carries the given user id and channel URL, the status \<^verbatim>\<open>pending\<close> and no
  response; the reports that were there, the moderated chats and the histories stay
  as they were.
\<close>

theorem create_report_post:
  "reports_of (STATE (snd (create_report e u url uuid_hex now w))) =
     reports_of (STATE w) @ [fst (create_report e u url uuid_hex now w)]
   \<and> user_id (fst (create_report e u url uuid_hex now w)) = tg_id u
   \<and> channel_url (fst (create_report e u url uuid_hex now w)) = url
   \<and> status (fst (create_report e u url uuid_hex now w)) = ''pending''
   \<and> response_by (fst (create_report e u url uuid_hex now w)) = None
   \<and> response_at (fst (create_report e u url uuid_hex now w)) = None
   \<and> moderated_chats (STATE (snd (create_report e u url uuid_hex now w))) = moderated_chats (STATE w)
   \<and> histories (STATE (snd (create_report e u url uuid_hex now w))) = histories (STATE w)"
  by (simp add: create_report_def persist_def reports_of_def Let_def)

section \<open>Moderation flags\<close>

lemma remove_first_set: "y \<noteq> x \<Longrightarrow> (y \<in> set (remove_first x xs)) = (y \<in> set xs)"
  by (induction xs) auto

lemma remove_first_subset: "y \<in> set (remove_first x xs) \<Longrightarrow> y \<in> set xs"
  by (induction xs) (auto split: if_splits)

lemma remove_first_distinct: "distinct xs \<Longrightarrow> distinct (remove_first x xs)"
  by (induction xs) (auto dest: remove_first_subset)

lemma remove_first_gone: "distinct xs \<Longrightarrow> x \<notin> set (remove_first x xs)"
  by (induction xs) auto

lemma chats_of_add:
  "chats_of (STATE (add_moderated_chat e c w)) =
     (if c \<in> set (chats_of (STATE w)) then chats_of (STATE w) else chats_of (STATE w) @ [c])"
  by (simp add: add_moderated_chat_def persist_def chats_of_def Let_def)

lemma chats_of_remove:
  "chats_of (STATE (remove_moderated_chat e c w)) =
     (if c \<in> set (chats_of (STATE w)) then remove_first c (chats_of (STATE w)) else chats_of (STATE w))"
  by (auto simp: remove_moderated_chat_def persist_def chats_of_def Let_def split: option.splits)

lemma add_present_same: "c \<in> set (chats_of (STATE w)) \<Longrightarrow> add_moderated_chat e c w = w"
  by (auto simp: add_moderated_chat_def chats_of_def Let_def split: option.splits)

lemma chats_of_push: "chats_of (STATE (push_history e c r m n w)) = chats_of (STATE w)"
  by (simp add: push_history_def persist_def chats_of_def Let_def)

lemma chats_of_create: "chats_of (STATE (snd (create_report e u url h now w))) = chats_of (STATE w)"
  by (simp add: create_report_def persist_def chats_of_def Let_def)

lemma chats_of_callback:
  "chats_of (STATE (snd (recovery_callback_handler e q now w))) = chats_of (STATE w)"
  by (simp add: recovery_callback_handler_def persist_def setdefault_reports_def chats_of_def Let_def
           split: option.splits prod.splits)

lemma chats_of_status: "chats_of (STATE (snd (recovery_status txt w))) = chats_of (STATE w)"
  by (simp add: recovery_status_def setdefault_reports_def chats_of_def Let_def split: option.splits)

lemma step_chats_distinct:
  "distinct (chats_of (STATE w)) \<Longrightarrow> distinct (chats_of (STATE (step e ev w)))"
  by (cases ev)
     (simp_all add: chats_of_add chats_of_remove chats_of_push chats_of_create chats_of_callback
        chats_of_status remove_first_distinct)

lemma run_chats_distinct:
  "distinct (chats_of (STATE w)) \<Longrightarrow> distinct (chats_of (STATE (run e evs w)))"
  unfolding run_def by (induction evs arbitrary: w) (simp_all add: step_chats_distinct)

text \<open>
  C8. After \<^verbatim>\<open>add_moderated_chat(c)\<close> the chat \<open>c\<close> is moderated. After
  \<^verbatim>\<open>remove_moderated_chat(c)\<close> it is not, provided the list of moderated chats had no
  duplicates (\<^verbatim>\<open>list.remove\<close> takes out one occurrence only). Adding a chat that is
  present changes nothing, so adding is idempotent; the list of the default state has
  no duplicates and no run of the bot introduces one. The flag of every other chat
  \<open>d\<close> is the same before and after either operation.
\<close>

theorem moderation_flags:
  "is_chat_moderated (add_moderated_chat e c w) c
   \<and> (distinct (chats_of (STATE w)) \<longrightarrow> \<not> is_chat_moderated (remove_moderated_chat e c w) c)
   \<and> (is_chat_moderated w c \<longrightarrow> add_moderated_chat e c w = w)
   \<and> add_moderated_chat e c (add_moderated_chat e c w) = add_moderated_chat e c w
   \<and> distinct (chats_of DEFAULT_STATE)
   \<and> (distinct (chats_of (STATE w)) \<longrightarrow> distinct (chats_of (STATE (run e evs w))))
   \<and> (d \<noteq> c \<longrightarrow> is_chat_moderated (add_moderated_chat e c w) d = is_chat_moderated w d
               \<and> is_chat_moderated (remove_moderated_chat e c w) d = is_chat_moderated w d)"
proof -
  have a: "is_chat_moderated (add_moderated_chat e c w) c"
    by (simp add: is_chat_moderated_def chats_of_add)
  have b: "distinct (chats_of (STATE w)) \<longrightarrow> \<not> is_chat_moderated (remove_moderated_chat e c w) c"
    by (simp add: is_chat_moderated_def chats_of_remove remove_first_gone)
  have c: "is_chat_moderated w c \<longrightarrow> add_moderated_chat e c w = w"
    by (simp add: is_chat_moderated_def add_present_same)
  have d: "add_moderated_chat e c (add_moderated_chat e c w) = add_moderated_chat e c w"
    using a by (simp add: is_chat_moderated_def add_present_same)
  have i: "distinct (chats_of DEFAULT_STATE)"
    by (simp add: chats_of_def DEFAULT_STATE_def)
  have f: "d \<noteq> c \<longrightarrow> is_chat_moderated (add_moderated_chat e c w) d = is_chat_moderated w d
               \<and> is_chat_moderated (remove_moderated_chat e c w) d = is_chat_moderated w d"
    by (simp add: is_chat_moderated_def chats_of_add chats_of_remove remove_first_set)
  from a b c d i f run_chats_distinct [of w e evs] show ?thesis by blast
qed

text \<open>The statement at the list \<open>[5, 7]\<close>, for the chats 5 and 7.\<close>

theorem moderation_flags_witness:
  "is_chat_moderated (add_moderated_chat
       \<lparr>STATE_FILE = ''state.json'', RECOVERY_ADMIN_IDS = [], json_dump = (\<lambda>d. d), json_load = Some\<rparr> 5
       \<lparr>STATE = \<lparr>moderated_chats = Some [5, 7], histories = Some Map.empty, reports = Some []\<rparr>,
        files = Map.empty\<rparr>) 5
   \<and> distinct (chats_of (STATE
       \<lparr>STATE = \<lparr>moderated_chats = Some [5, 7], histories = Some Map.empty, reports = Some []\<rparr>,
        files = Map.empty :: string \<rightharpoonup> state\<rparr>))
   \<and> \<not> is_chat_moderated (remove_moderated_chat
       \<lparr>STATE_FILE = ''state.json'', RECOVERY_ADMIN_IDS = [], json_dump = (\<lambda>d. d), json_load = Some\<rparr> 5
       \<lparr>STATE = \<lparr>moderated_chats = Some [5, 7], histories = Some Map.empty, reports = Some []\<rparr>,
        files = Map.empty\<rparr>) 5
   \<and> is_chat_moderated (remove_moderated_chat
       \<lparr>STATE_FILE = ''state.json'', RECOVERY_ADMIN_IDS = [], json_dump = (\<lambda>d. d), json_load = Some\<rparr> 5
       \<lparr>STATE = \<lparr>moderated_chats = Some [5, 7], histories = Some Map.empty, reports = Some []\<rparr>,
        files = Map.empty\<rparr>) 7"
  using moderation_flags
    [of "\<lparr>STATE_FILE = ''state.json'', RECOVERY_ADMIN_IDS = [], json_dump = (\<lambda>d. d), json_load = Some\<rparr>" 5
        "\<lparr>STATE = \<lparr>moderated_chats = Some [5, 7], histories = Some Map.empty, reports = Some []\<rparr>,
          files = Map.empty\<rparr>" "[]" 7]
  by (simp add: is_chat_moderated_def add_moderated_chat_def remove_moderated_chat_def persist_def
        chats_of_def Let_def)

text \<open>
  On the list \<open>[5, 5]\<close>, which a state file can hold, chat 5 is still moderated after
  \<^verbatim>\<open>remove_moderated_chat(5)\<close>.
\<close>

theorem remove_moderated_counterexample:
  "is_chat_moderated (remove_moderated_chat
       \<lparr>STATE_FILE = ''state.json'', RECOVERY_ADMIN_IDS = [], json_dump = (\<lambda>d. d), json_load = Some\<rparr> 5
       \<lparr>STATE = \<lparr>moderated_chats = Some [5, 5], histories = Some Map.empty, reports = Some []\<rparr>,
        files = Map.empty\<rparr>) 5"
  by (simp add: is_chat_moderated_def remove_moderated_chat_def persist_def chats_of_def Let_def)

section \<open>Reports: the handler by cases, and the ids\<close>

lemma reports_of_add: "reports_of (STATE (add_moderated_chat e c w)) = reports_of (STATE w)"
  by (simp add: add_moderated_chat_def persist_def reports_of_def Let_def)

lemma reports_of_remove: "reports_of (STATE (remove_moderated_chat e c w)) = reports_of (STATE w)"
  by (simp add: remove_moderated_chat_def persist_def reports_of_def Let_def)

lemma reports_of_push: "reports_of (STATE (push_history e c r m n w)) = reports_of (STATE w)"
  by (simp add: push_history_def persist_def reports_of_def Let_def)

lemma reports_of_status: "reports_of (STATE (snd (recovery_status txt w))) = reports_of (STATE w)"
  by (simp add: recovery_status_def setdefault_reports_def reports_of_def Let_def split: option.splits)

lemma reports_of_create:
  "reports_of (STATE (snd (create_report e u url h now w))) =
     reports_of (STATE w) @ [fst (create_report e u url h now w)]"
  by (simp add: create_report_def persist_def reports_of_def Let_def)

lemma report_id_create: "report_id (fst (create_report e u url h now w)) = take 8 h"
  by (simp add: create_report_def Let_def)

lemma setdefault_reports_same [simp]: "reports_of (STATE (setdefault_reports w)) = reports_of (STATE w)"
  by (simp add: setdefault_reports_def reports_of_def)

lemma setdefault_reports_id: "reports_of (STATE w) \<noteq> [] \<Longrightarrow> setdefault_reports w = w"
  by (auto simp: setdefault_reports_def reports_of_def split: option.splits)

text \<open>The handler by cases: what it returns and what it leaves behind.\<close>

lemma callback_ignored:
  "parse_callback q = None \<Longrightarrow> recovery_callback_handler e q now w = (Ignored, w)"
  by (simp add: recovery_callback_handler_def)

lemma callback_unauthorized:
  "parse_callback q = Some (rid, action) \<Longrightarrow> admin_ids_set (RECOVERY_ADMIN_IDS e) \<noteq> {} \<Longrightarrow>
   from_id q \<notin> admin_ids_set (RECOVERY_ADMIN_IDS e) \<Longrightarrow>
   recovery_callback_handler e q now w = (Unauthorized, w)"
  by (simp add: recovery_callback_handler_def)

lemma callback_not_found:
  "parse_callback q = Some (rid, action) \<Longrightarrow>
   admin_ids_set (RECOVERY_ADMIN_IDS e) = {} \<or> from_id q \<in> admin_ids_set (RECOVERY_ADMIN_IDS e) \<Longrightarrow>
   find_report (reports_of (STATE w)) rid = None \<Longrightarrow>
   recovery_callback_handler e q now w = (NotFound, setdefault_reports w)"
  by (auto simp: recovery_callback_handler_def Let_def)

lemma find_report_nonempty: "find_report rs rid = Some i \<Longrightarrow> rs \<noteq> []"
  by (auto simp: find_report_def)

lemma callback_answered:
  "parse_callback q = Some (rid, action) \<Longrightarrow>
   admin_ids_set (RECOVERY_ADMIN_IDS e) = {} \<or> from_id q \<in> admin_ids_set (RECOVERY_ADMIN_IDS e) \<Longrightarrow>
   find_report (reports_of (STATE w)) rid = Some i \<Longrightarrow>
   status (reports_of (STATE w) ! i) \<noteq> ''pending'' \<Longrightarrow>
   recovery_callback_handler e q now w = (AlreadyAnswered, w)"
  by (auto simp: recovery_callback_handler_def Let_def setdefault_reports_id dest: find_report_nonempty)

lemma callback_resolved:
  "parse_callback q = Some (rid, action) \<Longrightarrow>
   admin_ids_set (RECOVERY_ADMIN_IDS e) = {} \<or> from_id q \<in> admin_ids_set (RECOVERY_ADMIN_IDS e) \<Longrightarrow>
   find_report (reports_of (STATE w)) rid = Some i \<Longrightarrow>
   status (reports_of (STATE w) ! i) = ''pending'' \<Longrightarrow>
   recovery_callback_handler e q now w =
     (Resolved (resolved (reports_of (STATE w) ! i) action (from_id q) now),
      persist e (w\<lparr>STATE := (STATE w)\<lparr>reports :=
         Some ((reports_of (STATE w))[i := resolved (reports_of (STATE w) ! i) action (from_id q) now])\<rparr>\<rparr>))"
  by (auto simp: recovery_callback_handler_def Let_def setdefault_reports_id resolved_def
           dest: find_report_nonempty)

lemma callback_cases:
  obtains (ignored) "recovery_callback_handler e q now w = (Ignored, w)"
  | (unauthorized) "recovery_callback_handler e q now w = (Unauthorized, w)"
  | (not_found) "recovery_callback_handler e q now w = (NotFound, setdefault_reports w)"
  | (answered) "recovery_callback_handler e q now w = (AlreadyAnswered, w)"
  | (resolved) rid action i where "parse_callback q = Some (rid, action)"
      "admin_ids_set (RECOVERY_ADMIN_IDS e) = {} \<or> from_id q \<in> admin_ids_set (RECOVERY_ADMIN_IDS e)"
      "find_report (reports_of (STATE w)) rid = Some i"
      "status (reports_of (STATE w) ! i) = ''pending''"
      "recovery_callback_handler e q now w =
         (Resolved (resolved (reports_of (STATE w) ! i) action (from_id q) now),
          persist e (w\<lparr>STATE := (STATE w)\<lparr>reports :=
            Some ((reports_of (STATE w))[i := resolved (reports_of (STATE w) ! i) action (from_id q) now])\<rparr>\<rparr>))"
proof (cases "parse_callback q")
  case None
  then show ?thesis using ignored callback_ignored by blast
next
  case (Some p)
  obtain rid action where p: "parse_callback q = Some (rid, action)"
    using Some by (cases p) auto
  show ?thesis
  proof (cases "admin_ids_set (RECOVERY_ADMIN_IDS e) = {} \<or> from_id q \<in> admin_ids_set (RECOVERY_ADMIN_IDS e)")
    case False
    then show ?thesis using unauthorized callback_unauthorized [OF p] by blast
  next
    case auth: True
    show ?thesis
    proof (cases "find_report (reports_of (STATE w)) rid")
      case None
      then show ?thesis using not_found callback_not_found [OF p auth] by blast
    next
      case (Some i)
      show ?thesis
      proof (cases "status (reports_of (STATE w) ! i) = ''pending''")
        case True
        then show ?thesis using resolved [OF p auth Some] callback_resolved [OF p auth Some] by blast
      next
        case False
        then show ?thesis using answered callback_answered [OF p auth Some] by blast
      qed
    qed
  qed
qed

lemma reports_of_persist [simp]: "reports_of (STATE (persist e w)) = reports_of (STATE w)"
  by (simp add: persist_def)

lemma reports_of_set [simp]: "reports_of (st\<lparr>reports := Some rs\<rparr>) = rs"
  by (simp add: reports_of_def)

lemma find_report_Some:
  "find_report rs rid = Some i \<Longrightarrow>
   i < length rs \<and> report_id (rs ! i) = rid \<and> (\<forall>j<i. report_id (rs ! j) \<noteq> rid)"
  unfolding find_report_def by (drule first_index_Some) simp

lemma find_report_None: "find_report rs rid = None \<longleftrightarrow> (\<forall>r\<in>set rs. report_id r \<noteq> rid)"
  by (simp add: find_report_def first_index_None)

lemma report_id_resolved [simp]: "report_id (resolved r action clicker now) = report_id r"
  by (simp add: resolved_def)

lemma ids_of_callback:
  "ids_of (STATE (snd (recovery_callback_handler e q now w))) = ids_of (STATE w)"
proof (cases e q now w rule: callback_cases)
  case (resolved rid action i)
  have "i < length (reports_of (STATE w))"
    using find_report_Some [OF resolved(3)] by simp
  then have "map report_id ((reports_of (STATE w))[i := resolved (reports_of (STATE w) ! i) action (from_id q) now])
        = map report_id (reports_of (STATE w))"
    by (simp add: map_update list_update_same_conv)
  then show ?thesis using resolved(5) by (simp add: ids_of_def)
qed (simp_all add: ids_of_def)

lemma ids_of_create:
  "ids_of (STATE (snd (create_report e u url h now w))) = ids_of (STATE w) @ [take 8 h]"
  by (simp add: ids_of_def reports_of_create report_id_create)

lemma ids_of_step: "ids_of (STATE (step e ev w)) = ids_of (STATE w) @ drawn_ids [ev]"
  by (cases ev)
     (simp_all add: ids_of_callback, simp_all add: ids_of_def reports_of_add reports_of_remove
        reports_of_push reports_of_status reports_of_create report_id_create)

lemma drawn_ids_Cons: "drawn_ids (ev # evs) = drawn_ids [ev] @ drawn_ids evs"
  by (cases ev) simp_all

lemma ids_of_run: "ids_of (STATE (run e evs w)) = ids_of (STATE w) @ drawn_ids evs"
  unfolding run_def
proof (induction evs arbitrary: w)
  case Nil
  show ?case by simp
next
  case (Cons ev evs)
  have "ids_of (STATE (fold (step e) (ev # evs) w)) = (ids_of (STATE w) @ drawn_ids [ev]) @ drawn_ids evs"
    by (simp add: Cons.IH ids_of_step)
  then show ?case using drawn_ids_Cons [of ev evs] by simp
qed

text \<open>
  C2. \<^verbatim>\<open>_create_report\<close> takes the first 8 hex digits of a random UUID as the id and
  checks nothing. The ids in the state after a run are the ids before it followed by
  the ids drawn during it, in order; the default state has none. So the ids are pairwise
  distinct whenever the ids at the start and the drawn ones are, and a new report's id
  differs from every existing id, and keeps the ids distinct, whenever the drawn id is
  not in use.
\<close>

theorem report_ids:
  "ids_of (STATE (run e evs w)) = ids_of (STATE w) @ drawn_ids evs
   \<and> ids_of DEFAULT_STATE = []
   \<and> (distinct (ids_of (STATE w) @ drawn_ids evs) \<longrightarrow> distinct (ids_of (STATE (run e evs w))))
   \<and> report_id (fst (create_report e u url uuid_hex now w)) = take 8 uuid_hex
   \<and> (take 8 uuid_hex \<notin> set (ids_of (STATE w)) \<longrightarrow>
        report_id (fst (create_report e u url uuid_hex now w)) \<notin> set (ids_of (STATE w))
        \<and> (distinct (ids_of (STATE w)) \<longrightarrow>
             distinct (ids_of (STATE (snd (create_report e u url uuid_hex now w))))))"
proof -
  have "ids_of DEFAULT_STATE = []"
    by (simp add: ids_of_def reports_of_def DEFAULT_STATE_def)
  then show ?thesis
    by (simp add: ids_of_run report_id_create ids_of_create)
qed

text \<open>Two reports created from UUIDs that differ in their first eight digits.\<close>

theorem report_ids_witness:
  "take 8 ''89abcdef000040008000000000000000''
     \<notin> set (ids_of (STATE (run
         \<lparr>STATE_FILE = ''state.json'', RECOVERY_ADMIN_IDS = [], json_dump = (\<lambda>d. d), json_load = Some\<rparr>
         [CreateReport \<lparr>tg_id = 42, username = Some ''ana'', first_name = ''Ana'', last_name = None\<rparr>
            ''https://t.me/a'' ''0123456789ab4def8123456789abcdef'' ''2024-01-01T10:00:00'']
         \<lparr>STATE = DEFAULT_STATE, files = Map.empty\<rparr>)))
   \<and> distinct (ids_of (STATE (run
         \<lparr>STATE_FILE = ''state.json'', RECOVERY_ADMIN_IDS = [], json_dump = (\<lambda>d. d), json_load = Some\<rparr>
         [CreateReport \<lparr>tg_id = 42, username = Some ''ana'', first_name = ''Ana'', last_name = None\<rparr>
            ''https://t.me/a'' ''0123456789ab4def8123456789abcdef'' ''2024-01-01T10:00:00'']
         \<lparr>STATE = DEFAULT_STATE, files = Map.empty\<rparr>)))
   \<and> distinct (ids_of (STATE (snd (create_report
         \<lparr>STATE_FILE = ''state.json'', RECOVERY_ADMIN_IDS = [], json_dump = (\<lambda>d. d), json_load = Some\<rparr>
         \<lparr>tg_id = 43, username = None, first_name = ''Bo'', last_name = None\<rparr>
         ''https://t.me/b'' ''89abcdef000040008000000000000000'' ''2024-01-01T11:00:00''
         (run
           \<lparr>STATE_FILE = ''state.json'', RECOVERY_ADMIN_IDS = [], json_dump = (\<lambda>d. d), json_load = Some\<rparr>
           [CreateReport \<lparr>tg_id = 42, username = Some ''ana'', first_name = ''Ana'', last_name = None\<rparr>
              ''https://t.me/a'' ''0123456789ab4def8123456789abcdef'' ''2024-01-01T10:00:00'']
           \<lparr>STATE = DEFAULT_STATE, files = Map.empty\<rparr>)))))"
  using report_ids
    [of "\<lparr>STATE_FILE = ''state.json'', RECOVERY_ADMIN_IDS = [], json_dump = (\<lambda>d. d), json_load = Some\<rparr>"
        "[]"
        "run \<lparr>STATE_FILE = ''state.json'', RECOVERY_ADMIN_IDS = [], json_dump = (\<lambda>d. d), json_load = Some\<rparr>
           [CreateReport \<lparr>tg_id = 42, username = Some ''ana'', first_name = ''Ana'', last_name = None\<rparr>
              ''https://t.me/a'' ''0123456789ab4def8123456789abcdef'' ''2024-01-01T10:00:00'']
           \<lparr>STATE = DEFAULT_STATE, files = Map.empty\<rparr>"
        "\<lparr>tg_id = 43, username = None, first_name = ''Bo'', last_name = None\<rparr>"
        "''https://t.me/b''" "''89abcdef000040008000000000000000''" "''2024-01-01T11:00:00''"]
  by (simp add: run_def create_report_def persist_def ids_of_def reports_of_def DEFAULT_STATE_def Let_def)

text \<open>
  Two reports created from different UUIDs that share their first eight digits get the
  same id: the second id is in use when it is assigned, and the ids of the state
  reached are not pairwise distinct.
\<close>

theorem report_ids_counterexample:
  "report_id (fst (create_report
       \<lparr>STATE_FILE = ''state.json'', RECOVERY_ADMIN_IDS = [], json_dump = (\<lambda>d. d), json_load = Some\<rparr>
       \<lparr>tg_id = 43, username = None, first_name = ''Bo'', last_name = None\<rparr>
       ''https://t.me/b'' ''01234567000040008000000000000000'' ''2024-01-01T11:00:00''
       (run
         \<lparr>STATE_FILE = ''state.json'', RECOVERY_ADMIN_IDS = [], json_dump = (\<lambda>d. d), json_load = Some\<rparr>
         [CreateReport \<lparr>tg_id = 42, username = Some ''ana'', first_name = ''Ana'', last_name = None\<rparr>
            ''https://t.me/a'' ''0123456789ab4def8123456789abcdef'' ''2024-01-01T10:00:00'']
         \<lparr>STATE = DEFAULT_STATE, files = Map.empty\<rparr>)))
     \<in> set (ids_of (STATE (run
         \<lparr>STATE_FILE = ''state.json'', RECOVERY_ADMIN_IDS = [], json_dump = (\<lambda>d. d), json_load = Some\<rparr>
         [CreateReport \<lparr>tg_id = 42, username = Some ''ana'', first_name = ''Ana'', last_name = None\<rparr>
            ''https://t.me/a'' ''0123456789ab4def8123456789abcdef'' ''2024-01-01T10:00:00'']
         \<lparr>STATE = DEFAULT_STATE, files = Map.empty\<rparr>)))
   \<and> \<not> distinct (ids_of (STATE (run
         \<lparr>STATE_FILE = ''state.json'', RECOVERY_ADMIN_IDS = [], json_dump = (\<lambda>d. d), json_load = Some\<rparr>
         [CreateReport \<lparr>tg_id = 42, username = Some ''ana'', first_name = ''Ana'', last_name = None\<rparr>
            ''https://t.me/a'' ''0123456789ab4def8123456789abcdef'' ''2024-01-01T10:00:00'',
          CreateReport \<lparr>tg_id = 43, username = None, first_name = ''Bo'', last_name = None\<rparr>
            ''https://t.me/b'' ''01234567000040008000000000000000'' ''2024-01-01T11:00:00'']
         \<lparr>STATE = DEFAULT_STATE, files = Map.empty\<rparr>)))"
  by (simp add: run_def create_report_def persist_def ids_of_def reports_of_def DEFAULT_STATE_def Let_def)

section \<open>Answering a report\<close>

lemma status_resolved: "status (resolved r action clicker now) = (if action = ''approve'' then ''provided'' else ''denied'')"
  by (simp add: resolved_def)

lemma step_keeps_answered:
  assumes "j < length (reports_of (STATE w))" and "status (reports_of (STATE w) ! j) \<noteq> ''pending''"
  shows "j < length (reports_of (STATE (step e ev w)))
         \<and> reports_of (STATE (step e ev w)) ! j = reports_of (STATE w) ! j"
proof (cases ev)
  case (Callback q now)
  show ?thesis
  proof (cases e q now w rule: callback_cases)
    case (resolved rid action i)
    from resolved(4) assms(2) have "i \<noteq> j" by auto
    then show ?thesis using assms(1) resolved(5) Callback by simp
  qed (simp_all add: Callback assms)
next
  case (CreateReport u url h now)
  then show ?thesis using assms(1) by (simp add: reports_of_create nth_append)
qed (simp_all add: assms reports_of_add reports_of_remove reports_of_push reports_of_status)

lemma run_keeps_answered:
  "j < length (reports_of (STATE w)) \<Longrightarrow> status (reports_of (STATE w) ! j) \<noteq> ''pending'' \<Longrightarrow>
   j < length (reports_of (STATE (run e evs w)))
   \<and> reports_of (STATE (run e evs w)) ! j = reports_of (STATE w) ! j"
  unfolding run_def
proof (induction evs arbitrary: w)
  case Nil
  then show ?case by simp
next
  case (Cons ev evs)
  from step_keeps_answered [OF Cons.prems, of e ev]
  have s: "j < length (reports_of (STATE (step e ev w)))"
    "reports_of (STATE (step e ev w)) ! j = reports_of (STATE w) ! j"
    by simp_all
  from s Cons.prems(2) have "status (reports_of (STATE (step e ev w)) ! j) \<noteq> ''pending''"
    by simp
  from Cons.IH [OF s(1) this] s(2) show ?case by simp
qed

text \<open>
  C1. A callback whose data names the report at position \<open>i\<close> (the first one with the
  id). If that report's status is not \<^verbatim>\<open>pending\<close>, the handler leaves the whole world,
  state and file, as it was. If it is \<^verbatim>\<open>pending\<close> and the clicker passes the
  authorization guard (no admin ids are configured, or the clicker's id is one of
  them), the handler sets the status to \<^verbatim>\<open>provided\<close> for the action \<^verbatim>\<open>approve\<close> and to
  \<^verbatim>\<open>denied\<close> for any other action, and no later run of the bot changes that report
  again. If it is \<^verbatim>\<open>pending\<close> and the guard rejects the clicker, the world is left as it
  was.
\<close>

theorem report_resolution:
  assumes "parse_callback q = Some (rid, action)"
    and "find_report (reports_of (STATE w)) rid = Some i"
  shows "(status (reports_of (STATE w) ! i) \<noteq> ''pending'' \<longrightarrow>
            snd (recovery_callback_handler e q now w) = w)
       \<and> (status (reports_of (STATE w) ! i) = ''pending'' \<longrightarrow>
            (if admin_ids_set (RECOVERY_ADMIN_IDS e) = {} \<or> from_id q \<in> admin_ids_set (RECOVERY_ADMIN_IDS e)
             then status (reports_of (STATE (snd (recovery_callback_handler e q now w))) ! i) =
                    (if action = ''approve'' then ''provided'' else ''denied'')
                  \<and> (\<forall>evs. reports_of (STATE (run e evs (snd (recovery_callback_handler e q now w)))) ! i =
                             reports_of (STATE (snd (recovery_callback_handler e q now w))) ! i)
             else snd (recovery_callback_handler e q now w) = w))"
proof (cases "admin_ids_set (RECOVERY_ADMIN_IDS e) = {} \<or> from_id q \<in> admin_ids_set (RECOVERY_ADMIN_IDS e)")
  case False
  then show ?thesis using callback_unauthorized [OF assms(1), of e now w] by auto
next
  case auth: True
  have len: "i < length (reports_of (STATE w))"
    using find_report_Some [OF assms(2)] by simp
  show ?thesis
  proof (cases "status (reports_of (STATE w) ! i) = ''pending''")
    case False
    then show ?thesis using callback_answered [OF assms(1) auth assms(2)] by simp
  next
    case True
    let ?w' = "snd (recovery_callback_handler e q now w)"
    have rs: "reports_of (STATE ?w') =
        (reports_of (STATE w))[i := resolved (reports_of (STATE w) ! i) action (from_id q) now]"
      using callback_resolved [OF assms(1) auth assms(2) True, of now] by simp
    have st: "status (reports_of (STATE ?w') ! i) = (if action = ''approve'' then ''provided'' else ''denied'')"
      using rs len by (simp add: status_resolved)
    then have np: "status (reports_of (STATE ?w') ! i) \<noteq> ''pending''"
      by (simp split: if_splits)
    have len': "i < length (reports_of (STATE ?w'))"
      using rs len by simp
    have "\<forall>evs. reports_of (STATE (run e evs ?w')) ! i = reports_of (STATE ?w') ! i"
      using run_keeps_answered [OF len' np] by simp
    with st auth True show ?thesis by simp
  qed
qed

text \<open>An admin approves a pending report; a later click on the other button changes nothing.\<close>

theorem report_resolution_witness:
  "(let e = \<lparr>STATE_FILE = ''state.json'', RECOVERY_ADMIN_IDS = ''1001'', json_dump = (\<lambda>d. d), json_load = Some\<rparr>;
        w = \<lparr>STATE = \<lparr>moderated_chats = Some [], histories = Some Map.empty,
                        reports = Some [\<lparr>report_id = ''0123abcd'', user_id = 42, user_name = ''ana'',
                                         channel_url = ''https://t.me/a'', created_at = ''2024-01-01T10:00:00Z'',
                                         status = ''pending'', response_by = None, response_at = None\<rparr>]\<rparr>,
              files = Map.empty\<rparr>;
        q = \<lparr>data = Some ''recovery:0123abcd:approve'', from_id = 1001\<rparr>;
        w' = snd (recovery_callback_handler e q ''2024-01-02T09:30:00'' w)
    in parse_callback q = Some (''0123abcd'', ''approve'')
       \<and> find_report (reports_of (STATE w)) ''0123abcd'' = Some 0
       \<and> status (reports_of (STATE w) ! 0) = ''pending''
       \<and> from_id q \<in> admin_ids_set (RECOVERY_ADMIN_IDS e)
       \<and> status (reports_of (STATE w') ! 0) = ''provided''
       \<and> reports_of (STATE (run e [Callback \<lparr>data = Some ''recovery:0123abcd:deny'', from_id = 1001\<rparr>
                                       ''2024-01-03T08:00:00''] w')) ! 0
            = reports_of (STATE w') ! 0)"
proof -
  let ?e = "\<lparr>STATE_FILE = ''state.json'', RECOVERY_ADMIN_IDS = ''1001'', json_dump = (\<lambda>d. d), json_load = Some\<rparr>
             :: state env"
  let ?w = "\<lparr>STATE = \<lparr>moderated_chats = Some [], histories = Some Map.empty,
                        reports = Some [\<lparr>report_id = ''0123abcd'', user_id = 42, user_name = ''ana'',
                                         channel_url = ''https://t.me/a'', created_at = ''2024-01-01T10:00:00Z'',
                                         status = ''pending'', response_by = None, response_at = None\<rparr>]\<rparr>,
              files = Map.empty\<rparr> :: state world"
  let ?q = "\<lparr>data = Some ''recovery:0123abcd:approve'', from_id = 1001\<rparr>"
  have p: "parse_callback ?q = Some (''0123abcd'', ''approve'')"
    by (simp add: parse_callback_def)
  have f: "find_report (reports_of (STATE ?w)) ''0123abcd'' = Some 0"
    by (simp add: find_report_def reports_of_def)
  have s: "status (reports_of (STATE ?w) ! 0) = ''pending''"
    by (simp add: reports_of_def)
  have a: "from_id ?q \<in> admin_ids_set (RECOVERY_ADMIN_IDS ?e)"
    by (simp add: admin_ids_set_def strip_def isspace_def py_int_def int_nat_def isdigit_def digit_val_def)
  from report_resolution [OF p f, of ?e "''2024-01-02T09:30:00''"] s a p f
  show ?thesis by (simp add: Let_def)
qed

text \<open>
  With the admin ids \<^verbatim>\<open>1001\<close> configured, user 7 clicks the approve button of a pending
  report: the handler answers that the user is not authorized and the report stays
  pending.
\<close>

theorem report_resolution_counterexample:
  "(let e = \<lparr>STATE_FILE = ''state.json'', RECOVERY_ADMIN_IDS = ''1001'', json_dump = (\<lambda>d. d), json_load = Some\<rparr>;
        w = \<lparr>STATE = \<lparr>moderated_chats = Some [], histories = Some Map.empty,
                        reports = Some [\<lparr>report_id = ''0123abcd'', user_id = 42, user_name = ''ana'',
                                         channel_url = ''https://t.me/a'', created_at = ''2024-01-01T10:00:00Z'',
                                         status = ''pending'', response_by = None, response_at = None\<rparr>]\<rparr>,
              files = Map.empty\<rparr>;
        q = \<lparr>data = Some ''recovery:0123abcd:approve'', from_id = 7\<rparr>
    in parse_callback q = Some (''0123abcd'', ''approve'')
       \<and> find_report (reports_of (STATE w)) ''0123abcd'' = Some 0
       \<and> status (reports_of (STATE w) ! 0) = ''pending''
       \<and> recovery_callback_handler e q ''2024-01-02T09:30:00'' w = (Unauthorized, w)
       \<and> status (reports_of (STATE (snd (recovery_callback_handler e q ''2024-01-02T09:30:00'' w))) ! 0)
            = ''pending'')"
  by (simp add: Let_def recovery_callback_handler_def parse_callback_def find_report_def reports_of_def
        admin_ids_set_def strip_def isspace_def py_int_def int_nat_def isdigit_def digit_val_def)

text \<open>
  C10. When the handler resolves a report, the report \<open>r\<close> it returns replaces the first
  report with that id, which was pending, and nothing else in the list changes. \<open>r\<close>
  differs from the report it replaces in \<^verbatim>\<open>status\<close>, \<^verbatim>\<open>response_by\<close> (now the clicker's id)
  and \<^verbatim>\<open>response_at\<close> only: \<^verbatim>\<open>id\<close>, \<^verbatim>\<open>user_id\<close>, \<^verbatim>\<open>user_name\<close>, \<^verbatim>\<open>channel_url\<close> and
  \<^verbatim>\<open>created_at\<close> are the same. The moderated chats and the histories are unchanged.
\<close>

theorem resolution_frame:
  assumes "recovery_callback_handler e q now w = (Resolved r, w')"
  shows "\<exists>i. i < length (reports_of (STATE w))
           \<and> find_report (reports_of (STATE w)) (report_id r) = Some i
           \<and> status (reports_of (STATE w) ! i) = ''pending''
           \<and> reports_of (STATE w') = (reports_of (STATE w))[i := r]
           \<and> r = (reports_of (STATE w) ! i)
                   \<lparr>status := status r, response_by := Some (from_id q), response_at := response_at r\<rparr>
           \<and> report_id r = report_id (reports_of (STATE w) ! i)
           \<and> user_id r = user_id (reports_of (STATE w) ! i)
           \<and> user_name r = user_name (reports_of (STATE w) ! i)
           \<and> channel_url r = channel_url (reports_of (STATE w) ! i)
           \<and> created_at r = created_at (reports_of (STATE w) ! i)
           \<and> moderated_chats (STATE w') = moderated_chats (STATE w)
           \<and> histories (STATE w') = histories (STATE w)"
proof (cases e q now w rule: callback_cases)
  case (resolved rid action i)
  from resolved(5) assms
  have r: "r = resolved (reports_of (STATE w) ! i) action (from_id q) now"
    and w': "w' = persist e (w\<lparr>STATE := (STATE w)\<lparr>reports :=
         Some ((reports_of (STATE w))[i := resolved (reports_of (STATE w) ! i) action (from_id q) now])\<rparr>\<rparr>)"
    by simp_all
  from find_report_Some [OF resolved(3)]
  have i: "i < length (reports_of (STATE w))" "report_id (reports_of (STATE w) ! i) = rid"
    by simp_all
  have "find_report (reports_of (STATE w)) (report_id r) = Some i"
    using resolved(3) i(2) r by simp
  moreover have "reports_of (STATE w') = (reports_of (STATE w))[i := r]"
    using r w' by simp
  moreover have "moderated_chats (STATE w') = moderated_chats (STATE w)"
    "histories (STATE w') = histories (STATE w)"
    using w' by (simp_all add: persist_def)
  ultimately show ?thesis using i(1) resolved(4) r
    by (intro exI [of _ i]) (simp add: resolved_def)
qed (use assms in simp_all)

text \<open>User 7 denies the second of two pending reports; no admin ids are configured.\<close>

theorem resolution_frame_witness:
  "(let e = \<lparr>STATE_FILE = ''state.json'', RECOVERY_ADMIN_IDS = [], json_dump = (\<lambda>d. d), json_load = Some\<rparr>;
        a = \<lparr>report_id = ''0123abcd'', user_id = 42, user_name = ''ana'',
             channel_url = ''https://t.me/a'', created_at = ''2024-01-01T10:00:00Z'',
             status = ''pending'', response_by = None, response_at = None\<rparr>;
        b = \<lparr>report_id = ''89abcdef'', user_id = 43, user_name = ''Bo None'',
             channel_url = ''https://t.me/b'', created_at = ''2024-01-01T11:00:00Z'',
             status = ''pending'', response_by = None, response_at = None\<rparr>;
        st = \<lparr>moderated_chats = Some [5], histories = Some Map.empty, reports = Some [a, b]\<rparr>;
        b' = b\<lparr>status := ''denied'', response_by := Some 7, response_at := Some ''2024-01-02T09:30:00Z''\<rparr>;
        st' = st\<lparr>reports := Some [a, b']\<rparr>
    in recovery_callback_handler e \<lparr>data = Some ''recovery:89abcdef:deny'', from_id = 7\<rparr>
         ''2024-01-02T09:30:00'' \<lparr>STATE = st, files = Map.empty\<rparr>
         = (Resolved b', \<lparr>STATE = st', files = [''state.json'' \<mapsto> st']\<rparr>)
       \<and> find_report (reports_of st) (report_id b') = Some 1
       \<and> reports_of st' = (reports_of st)[1 := b']
       \<and> moderated_chats st' = moderated_chats st)"
proof -
  let ?e = "\<lparr>STATE_FILE = ''state.json'', RECOVERY_ADMIN_IDS = [], json_dump = (\<lambda>d. d), json_load = Some\<rparr>
             :: state env"
  let ?a = "\<lparr>report_id = ''0123abcd'', user_id = 42, user_name = ''ana'',
             channel_url = ''https://t.me/a'', created_at = ''2024-01-01T10:00:00Z'',
             status = ''pending'', response_by = None, response_at = None\<rparr>"
  let ?b = "\<lparr>report_id = ''89abcdef'', user_id = 43, user_name = ''Bo None'',
             channel_url = ''https://t.me/b'', created_at = ''2024-01-01T11:00:00Z'',
             status = ''pending'', response_by = None, response_at = None\<rparr>"
  let ?st = "\<lparr>moderated_chats = Some [5], histories = Some Map.empty, reports = Some [?a, ?b]\<rparr>"
  let ?b' = "?b\<lparr>status := ''denied'', response_by := Some 7, response_at := Some ''2024-01-02T09:30:00Z''\<rparr>"
  let ?st' = "?st\<lparr>reports := Some [?a, ?b']\<rparr>"
  have h: "recovery_callback_handler ?e \<lparr>data = Some ''recovery:89abcdef:deny'', from_id = 7\<rparr>
         ''2024-01-02T09:30:00'' \<lparr>STATE = ?st, files = Map.empty\<rparr>
         = (Resolved ?b', \<lparr>STATE = ?st', files = [''state.json'' \<mapsto> ?st']\<rparr>)"
    by (simp add: recovery_callback_handler_def parse_callback_def find_report_def reports_of_def
          setdefault_reports_def persist_def save_state_def resolved_def Let_def
          admin_ids_set_def strip_def isspace_def)
  from resolution_frame [OF h] h show ?thesis
    by (simp add: Let_def find_report_def reports_of_def)
qed

section \<open>Looking a report up\<close>

lemma status_found:
  "status_arg txt = Some rid \<Longrightarrow>
   recovery_status txt w =
     (case find_report (reports_of (STATE w)) rid of
        None \<Rightarrow> ''Reporte no encontrado.''
      | Some i \<Rightarrow> status_reply (reports_of (STATE w) ! i),
      setdefault_reports w)"
  by (simp add: recovery_status_def Let_def split: option.splits)

lemma callback_reports_unless_resolved:
  "(\<forall>r. fst (recovery_callback_handler e q now w) \<noteq> Resolved r) \<Longrightarrow>
   reports_of (STATE (snd (recovery_callback_handler e q now w))) = reports_of (STATE w)"
  by (cases e q now w rule: callback_cases) simp_all

text \<open>
  C5. The look-up shared by \<^verbatim>\<open>/recovery_status\<close> and the callback handler finds nothing
  exactly when no report of the list has the id, and otherwise finds the first report
  with that id. For a command whose argument is \<open>rid\<close>, the status query answers
  "Reporte no encontrado." when the look-up finds nothing and the found report's details
  otherwise, and it leaves the reports as they were. A callback that reaches the look-up
  (its data parses and the guard lets the clicker through) ends as not found exactly
  when the look-up finds nothing, and unless it resolves a report the handler leaves the
  reports as they were.
\<close>

theorem report_lookup:
  "(find_report rs rid = None \<longleftrightarrow> (\<forall>r\<in>set rs. report_id r \<noteq> rid))
   \<and> (\<forall>i. find_report rs rid = Some i \<longrightarrow>
          i < length rs \<and> report_id (rs ! i) = rid \<and> (\<forall>j<i. report_id (rs ! j) \<noteq> rid))
   \<and> (status_arg txt = Some rid \<longrightarrow>
        fst (recovery_status txt w) =
          (case find_report (reports_of (STATE w)) rid of
             None \<Rightarrow> ''Reporte no encontrado.''
           | Some i \<Rightarrow> status_reply (reports_of (STATE w) ! i)))
   \<and> reports_of (STATE (snd (recovery_status txt w))) = reports_of (STATE w)
   \<and> (parse_callback q = Some (rid, action) \<longrightarrow>
        admin_ids_set (RECOVERY_ADMIN_IDS e) = {} \<or> from_id q \<in> admin_ids_set (RECOVERY_ADMIN_IDS e) \<longrightarrow>
        (fst (recovery_callback_handler e q now w) = NotFound
           \<longleftrightarrow> find_report (reports_of (STATE w)) rid = None))
   \<and> ((\<forall>r. fst (recovery_callback_handler e q now w) \<noteq> Resolved r) \<longrightarrow>
        reports_of (STATE (snd (recovery_callback_handler e q now w))) = reports_of (STATE w))"
proof -
  have a: "find_report rs rid = None \<longleftrightarrow> (\<forall>r\<in>set rs. report_id r \<noteq> rid)"
    by (rule find_report_None)
  have b: "\<forall>i. find_report rs rid = Some i \<longrightarrow>
          i < length rs \<and> report_id (rs ! i) = rid \<and> (\<forall>j<i. report_id (rs ! j) \<noteq> rid)"
    using find_report_Some by blast
  have c: "status_arg txt = Some rid \<longrightarrow>
        fst (recovery_status txt w) =
          (case find_report (reports_of (STATE w)) rid of
             None \<Rightarrow> ''Reporte no encontrado.''
           | Some i \<Rightarrow> status_reply (reports_of (STATE w) ! i))"
    by (simp add: status_found)
  have d: "reports_of (STATE (snd (recovery_status txt w))) = reports_of (STATE w)"
    by (rule reports_of_status)
  have f: "parse_callback q = Some (rid, action) \<longrightarrow>
        admin_ids_set (RECOVERY_ADMIN_IDS e) = {} \<or> from_id q \<in> admin_ids_set (RECOVERY_ADMIN_IDS e) \<longrightarrow>
        (fst (recovery_callback_handler e q now w) = NotFound
           \<longleftrightarrow> find_report (reports_of (STATE w)) rid = None)"
    by (auto simp: recovery_callback_handler_def Let_def split: option.splits)
  have g: "(\<forall>r. fst (recovery_callback_handler e q now w) \<noteq> Resolved r) \<longrightarrow>
        reports_of (STATE (snd (recovery_callback_handler e q now w))) = reports_of (STATE w)"
    using callback_reports_unless_resolved by blast
  from a b c d f g show ?thesis by blast
qed

text \<open>
  Three reports, the second and third with the same id: the look-up gives the second.
  Nothing has the id \<^verbatim>\<open>ffffffff\<close>.
\<close>

theorem report_lookup_witness:
  "(let a = \<lparr>report_id = ''0123abcd'', user_id = 42, user_name = ''ana'',
             channel_url = ''https://t.me/a'', created_at = ''2024-01-01T10:00:00Z'',
             status = ''denied'', response_by = Some 7, response_at = Some ''2024-01-02T09:30:00Z''\<rparr>;
        b = \<lparr>report_id = ''89abcdef'', user_id = 43, user_name = ''Bo None'',
             channel_url = ''https://t.me/b'', created_at = ''2024-01-01T11:00:00Z'',
             status = ''pending'', response_by = None, response_at = None\<rparr>;
        c = \<lparr>report_id = ''0123abcd'', user_id = 44, user_name = ''cy'',
             channel_url = ''https://t.me/c'', created_at = ''2024-01-01T12:00:00Z'',
             status = ''pending'', response_by = None, response_at = None\<rparr>;
        w = \<lparr>STATE = \<lparr>moderated_chats = Some [], histories = Some Map.empty, reports = Some [b, a, c]\<rparr>,
             files = Map.empty :: string \<rightharpoonup> state\<rparr>;
        e = \<lparr>STATE_FILE = ''state.json'', RECOVERY_ADMIN_IDS = [], json_dump = (\<lambda>d. d), json_load = Some\<rparr>
    in find_report [b, a, c] ''0123abcd'' = Some 1
       \<and> find_report [b, a, c] ''ffffffff'' = None
       \<and> status_arg (Some ''/recovery_status 0123abcd'') = Some ''0123abcd''
       \<and> fst (recovery_status (Some ''/recovery_status 0123abcd'') w) = status_reply a
       \<and> status_arg (Some ''/recovery_status ffffffff'') = Some ''ffffffff''
       \<and> fst (recovery_status (Some ''/recovery_status ffffffff'') w) = ''Reporte no encontrado.''
       \<and> parse_callback \<lparr>data = Some ''recovery:ffffffff:approve'', from_id = 7\<rparr>
            = Some (''ffffffff'', ''approve'')
       \<and> fst (recovery_callback_handler e \<lparr>data = Some ''recovery:ffffffff:approve'', from_id = 7\<rparr>
                 ''2024-01-02T09:30:00'' w) = NotFound
       \<and> reports_of (STATE (snd (recovery_callback_handler e
              \<lparr>data = Some ''recovery:ffffffff:approve'', from_id = 7\<rparr> ''2024-01-02T09:30:00'' w)))
            = [b, a, c])"
proof -
  let ?a = "\<lparr>report_id = ''0123abcd'', user_id = 42, user_name = ''ana'',
             channel_url = ''https://t.me/a'', created_at = ''2024-01-01T10:00:00Z'',
             status = ''denied'', response_by = Some 7, response_at = Some ''2024-01-02T09:30:00Z''\<rparr>"
  let ?b = "\<lparr>report_id = ''89abcdef'', user_id = 43, user_name = ''Bo None'',
             channel_url = ''https://t.me/b'', created_at = ''2024-01-01T11:00:00Z'',
             status = ''pending'', response_by = None, response_at = None\<rparr>"
  let ?c = "\<lparr>report_id = ''0123abcd'', user_id = 44, user_name = ''cy'',
             channel_url = ''https://t.me/c'', created_at = ''2024-01-01T12:00:00Z'',
             status = ''pending'', response_by = None, response_at = None\<rparr>"
  let ?w = "\<lparr>STATE = \<lparr>moderated_chats = Some [], histories = Some Map.empty, reports = Some [?b, ?a, ?c]\<rparr>,
             files = Map.empty :: string \<rightharpoonup> state\<rparr>"
  let ?e = "\<lparr>STATE_FILE = ''state.json'', RECOVERY_ADMIN_IDS = [], json_dump = (\<lambda>d. d), json_load = Some\<rparr>
             :: state env"
  let ?q = "\<lparr>data = Some ''recovery:ffffffff:approve'', from_id = 7\<rparr>"
  have f1: "find_report [?b, ?a, ?c] ''0123abcd'' = Some 1"
    by (simp add: find_report_def)
  have f2: "find_report [?b, ?a, ?c] ''ffffffff'' = None"
    by (simp add: find_report_def)
  have s1: "status_arg (Some ''/recovery_status 0123abcd'') = Some ''0123abcd''"
    by (simp add: status_arg_def split_once_def strip_def isspace_def)
  have s2: "status_arg (Some ''/recovery_status ffffffff'') = Some ''ffffffff''"
    by (simp add: status_arg_def split_once_def strip_def isspace_def)
  have p: "parse_callback ?q = Some (''ffffffff'', ''approve'')"
    by (simp add: parse_callback_def)
  have au: "admin_ids_set (RECOVERY_ADMIN_IDS ?e) = {}"
    by (simp add: admin_ids_set_def strip_def)
  have rs: "reports_of (STATE ?w) = [?b, ?a, ?c]"
    by (simp add: reports_of_def)
  from report_lookup [of "[?b, ?a, ?c]" "''0123abcd''" "Some ''/recovery_status 0123abcd''" ?w ?q "''approve''" ?e
         "''2024-01-02T09:30:00''"]
       report_lookup [of "[?b, ?a, ?c]" "''ffffffff''" "Some ''/recovery_status ffffffff''" ?w ?q "''approve''" ?e
         "''2024-01-02T09:30:00''"]
       f1 f2 s1 s2 p au rs
  show ?thesis by (simp add: Let_def)
qed

section \<open>The authorization guard\<close>

lemma admin_ids_of_eq:
  "admin_ids_of ps = {n. \<exists>p\<in>set ps. strip p \<noteq> [] \<and> py_int (strip p) = Some n}"
  by (induction ps) (auto simp: Let_def split: option.splits)

lemma admin_ids_set_eq:
  "admin_ids_set s = {n. \<exists>p\<in>set (split_on CHR '','' s). strip p \<noteq> [] \<and> py_int (strip p) = Some n}"
  by (simp add: admin_ids_set_def admin_ids_of_eq)

lemma admin_ids_set_empty:
  "admin_ids_set s = {} \<longleftrightarrow> (\<forall>p\<in>set (split_on CHR '','' s). strip p = [] \<or> py_int (strip p) = None)"
  by (auto simp: admin_ids_set_eq)

lemma callback_unauthorized_iff:
  "fst (recovery_callback_handler e q now w) = Unauthorized \<longleftrightarrow>
     parse_callback q \<noteq> None \<and> admin_ids_set (RECOVERY_ADMIN_IDS e) \<noteq> {}
     \<and> from_id q \<notin> admin_ids_set (RECOVERY_ADMIN_IDS e)"
  by (auto simp: recovery_callback_handler_def Let_def split: option.splits)

text \<open>
  C9. \<^verbatim>\<open>_admin_ids_set\<close> holds the integers of the comma-separated tokens that are, once
  stripped, neither blank nor rejected by \<^verbatim>\<open>int\<close>; it is empty exactly when every token is
  blank or not an integer, as for the empty string of an unset variable. The handler
  rejects a callback as unauthorized exactly when its data parses, the set is not empty
  and the clicker's id is not in it. With an empty set any clicker resolves a pending
  report, and is recorded in \<^verbatim>\<open>response_by\<close>.
\<close>

theorem admin_guard:
  "admin_ids_set s = {n. \<exists>p\<in>set (split_on CHR '','' s). strip p \<noteq> [] \<and> py_int (strip p) = Some n}
   \<and> (admin_ids_set s = {} \<longleftrightarrow>
        (\<forall>p\<in>set (split_on CHR '','' s). strip p = [] \<or> py_int (strip p) = None))
   \<and> admin_ids_set [] = {}
   \<and> (fst (recovery_callback_handler e q now w) = Unauthorized \<longleftrightarrow>
        parse_callback q \<noteq> None \<and> admin_ids_set (RECOVERY_ADMIN_IDS e) \<noteq> {}
        \<and> from_id q \<notin> admin_ids_set (RECOVERY_ADMIN_IDS e))
   \<and> (admin_ids_set (RECOVERY_ADMIN_IDS e) = {} \<longrightarrow>
        parse_callback q = Some (rid, action) \<longrightarrow>
        find_report (reports_of (STATE w)) rid = Some i \<longrightarrow>
        status (reports_of (STATE w) ! i) = ''pending'' \<longrightarrow>
        fst (recovery_callback_handler e q now w) =
          Resolved (resolved (reports_of (STATE w) ! i) action (from_id q) now)
        \<and> response_by (resolved (reports_of (STATE w) ! i) action (from_id q) now) = Some (from_id q))"
proof -
  have a: "admin_ids_set [] = {}"
    by (simp add: admin_ids_set_def strip_def)
  have b: "admin_ids_set (RECOVERY_ADMIN_IDS e) = {} \<longrightarrow>
        parse_callback q = Some (rid, action) \<longrightarrow>
        find_report (reports_of (STATE w)) rid = Some i \<longrightarrow>
        status (reports_of (STATE w) ! i) = ''pending'' \<longrightarrow>
        fst (recovery_callback_handler e q now w) =
          Resolved (resolved (reports_of (STATE w) ! i) action (from_id q) now)
        \<and> response_by (resolved (reports_of (STATE w) ! i) action (from_id q) now) = Some (from_id q)"
    using callback_resolved [of q rid action e w i now] by (simp add: resolved_def)
  from a b admin_ids_set_eq [of s] admin_ids_set_empty [of s] callback_unauthorized_iff [of e q now w]
  show ?thesis by blast
qed

text \<open>
  A list of a blank token and two that are not integers gives the empty set, and user 999
  resolves the report; with three admin ids configured the same click is rejected.
\<close>

theorem admin_guard_witness:
  "(let a = \<lparr>report_id = ''0123abcd'', user_id = 42, user_name = ''ana'',
             channel_url = ''https://t.me/a'', created_at = ''2024-01-01T10:00:00Z'',
             status = ''pending'', response_by = None, response_at = None\<rparr>;
        w = \<lparr>STATE = \<lparr>moderated_chats = Some [], histories = Some Map.empty, reports = Some [a]\<rparr>,
             files = Map.empty :: string \<rightharpoonup> state\<rparr>;
        e = \<lparr>STATE_FILE = ''state.json'', RECOVERY_ADMIN_IDS = '' , x, 1__0'', json_dump = (\<lambda>d. d),
             json_load = Some\<rparr>;
        q = \<lparr>data = Some ''recovery:0123abcd:approve'', from_id = 999\<rparr>
    in admin_ids_set '' , x, 1__0'' = {}
       \<and> admin_ids_set ''1001, 1_002,+7'' = {1001, 1002, 7}
       \<and> parse_callback q = Some (''0123abcd'', ''approve'')
       \<and> find_report (reports_of (STATE w)) ''0123abcd'' = Some 0
       \<and> status (reports_of (STATE w) ! 0) = ''pending''
       \<and> fst (recovery_callback_handler e q ''2024-01-02T09:30:00'' w) =
            Resolved (a\<lparr>status := ''provided'', response_by := Some 999,
                        response_at := Some ''2024-01-02T09:30:00Z''\<rparr>)
       \<and> fst (recovery_callback_handler (e\<lparr>RECOVERY_ADMIN_IDS := ''1001, 1_002,+7''\<rparr>) q
                 ''2024-01-02T09:30:00'' w) = Unauthorized)"
proof -
  let ?a = "\<lparr>report_id = ''0123abcd'', user_id = 42, user_name = ''ana'',
             channel_url = ''https://t.me/a'', created_at = ''2024-01-01T10:00:00Z'',
             status = ''pending'', response_by = None, response_at = None\<rparr>"
  let ?w = "\<lparr>STATE = \<lparr>moderated_chats = Some [], histories = Some Map.empty, reports = Some [?a]\<rparr>,
             files = Map.empty :: string \<rightharpoonup> state\<rparr>"
  let ?e = "\<lparr>STATE_FILE = ''state.json'', RECOVERY_ADMIN_IDS = '' , x, 1__0'', json_dump = (\<lambda>d. d),
             json_load = Some\<rparr> :: state env"
  let ?q = "\<lparr>data = Some ''recovery:0123abcd:approve'', from_id = 999\<rparr>"
  have e1: "admin_ids_set '' , x, 1__0'' = {}"
    by (simp add: admin_ids_set_def strip_def isspace_def py_int_def int_nat_def isdigit_def digit_val_def)
  have e2: "admin_ids_set ''1001, 1_002,+7'' = {1001, 1002, 7}"
    by (simp add: admin_ids_set_def strip_def isspace_def py_int_def int_nat_def isdigit_def digit_val_def)
  have p: "parse_callback ?q = Some (''0123abcd'', ''approve'')"
    by (simp add: parse_callback_def)
  have f: "find_report (reports_of (STATE ?w)) ''0123abcd'' = Some 0"
    by (simp add: find_report_def reports_of_def)
  have s: "status (reports_of (STATE ?w) ! 0) = ''pending''"
    by (simp add: reports_of_def)
  from admin_guard [of "'' , x, 1__0''" ?e ?q "''2024-01-02T09:30:00''" ?w "''0123abcd''" "''approve''" 0]
       admin_guard [of "''1001, 1_002,+7''" "?e\<lparr>RECOVERY_ADMIN_IDS := ''1001, 1_002,+7''\<rparr>" ?q
          "''2024-01-02T09:30:00''" ?w "''0123abcd''" "''approve''" 0]
       e1 e2 p f s
  show ?thesis by (simp add: Let_def resolved_def reports_of_def)
qed

section \<open>The generation client: results\<close>

lemma py_or_not_None: "b \<noteq> JNull \<Longrightarrow> py_or a b \<noteq> JNull"
  by (cases a) (auto simp: py_or_def)

lemma hf_result_error:
  "is_dict d \<Longrightarrow> truthy (dict_get d ''error'') \<Longrightarrow>
   hf_result py_str d = Inl (HuggingFaceError (dict_get d ''error''))"
  by (simp add: hf_result_def)

lemma hf_result_list:
  "is_dict x \<Longrightarrow>
   hf_result py_str (JList (x # xs)) =
     Inr (if truthy (dict_get x ''generated_text'') then dict_get x ''generated_text'' else JStr [])"
  by (simp add: hf_result_def py_or_def)

lemma hf_result_dict:
  "\<not> truthy (dict_get (JDict kvs) ''error'') \<Longrightarrow>
   hf_result py_str (JDict kvs) =
     Inr (if truthy (dict_get (JDict kvs) ''generated_text'') then dict_get (JDict kvs) ''generated_text''
          else if truthy (dict_get (JDict kvs) ''text'') then dict_get (JDict kvs) ''text''
          else JStr (py_str (JDict kvs)))"
  by (simp add: hf_result_def py_or_def)

lemma hf_result_other:
  "\<not> is_dict d \<Longrightarrow> (\<forall>x xs. d = JList (x # xs) \<longrightarrow> \<not> is_dict x) \<Longrightarrow>
   hf_result py_str d = Inr (JStr (py_str d))"
  by (cases d) (auto simp: hf_result_def split: list.splits)

lemma hf_result_not_None: "hf_result py_str d \<noteq> Inr JNull"
  by (cases d) (auto simp: hf_result_def py_or_not_None split: list.splits)

lemma hf_generate_text_not_None: "hf_generate_text py_str json_loads api_key resp \<noteq> Inr JNull"
  by (auto simp: hf_generate_text_def hf_result_not_None split: http_result.splits option.splits)

text \<open>
  C6. \<^verbatim>\<open>hf_generate_text\<close> fails when the API key is unset or empty, when the HTTP client
  raises, when the body is not JSON, and when the decoded JSON is a dict whose
  \<^verbatim>\<open>error\<close> field is truthy. Otherwise it returns a value, never \<^verbatim>\<open>None\<close>: for a list
  whose first element is a dict, that element's \<^verbatim>\<open>generated_text\<close> if truthy and the empty
  string if not; for a dict, its \<^verbatim>\<open>generated_text\<close> if truthy, else its \<^verbatim>\<open>text\<close> if truthy,
  else \<^verbatim>\<open>str(data)\<close>; for every other JSON value \<^verbatim>\<open>str(data)\<close>. The value is a string
  whenever each field consulted is a string or falsy.
\<close>

theorem generation_result:
  "(api_key = None \<or> api_key = Some [] \<longrightarrow>
      hf_generate_text py_str json_loads api_key resp = Inl ApiKeyMissing)
   \<and> (api_key \<noteq> None \<longrightarrow> api_key \<noteq> Some [] \<longrightarrow>
        hf_generate_text py_str json_loads api_key ClientError = Inl TransportError
        \<and> (json_loads body = None \<longrightarrow>
             hf_generate_text py_str json_loads api_key (Body body) = Inl (NonJsonResponse (take 400 body)))
        \<and> (json_loads body = Some d \<longrightarrow>
             hf_generate_text py_str json_loads api_key (Body body) = hf_result py_str d))
   \<and> (is_dict d \<longrightarrow> truthy (dict_get d ''error'') \<longrightarrow>
        hf_result py_str d = Inl (HuggingFaceError (dict_get d ''error'')))
   \<and> (is_dict x \<longrightarrow>
        hf_result py_str (JList (x # xs)) =
          Inr (if truthy (dict_get x ''generated_text'') then dict_get x ''generated_text'' else JStr []))
   \<and> (\<not> truthy (dict_get (JDict kvs) ''error'') \<longrightarrow>
        hf_result py_str (JDict kvs) =
          Inr (if truthy (dict_get (JDict kvs) ''generated_text'') then dict_get (JDict kvs) ''generated_text''
               else if truthy (dict_get (JDict kvs) ''text'') then dict_get (JDict kvs) ''text''
               else JStr (py_str (JDict kvs))))
   \<and> (\<not> is_dict d \<longrightarrow> (\<forall>y ys. d = JList (y # ys) \<longrightarrow> \<not> is_dict y) \<longrightarrow>
        hf_result py_str d = Inr (JStr (py_str d)))
   \<and> hf_generate_text py_str json_loads api_key resp \<noteq> Inr JNull
   \<and> (is_dict x \<longrightarrow>
        \<not> truthy (dict_get x ''generated_text'') \<or> (\<exists>s. dict_get x ''generated_text'' = JStr s) \<longrightarrow>
        (\<exists>s. hf_result py_str (JList (x # xs)) = Inr (JStr s)))
   \<and> (\<not> truthy (dict_get (JDict kvs) ''error'') \<longrightarrow>
        \<not> truthy (dict_get (JDict kvs) ''generated_text'')
          \<or> (\<exists>s. dict_get (JDict kvs) ''generated_text'' = JStr s) \<longrightarrow>
        \<not> truthy (dict_get (JDict kvs) ''text'') \<or> (\<exists>s. dict_get (JDict kvs) ''text'' = JStr s) \<longrightarrow>
        (\<exists>s. hf_result py_str (JDict kvs) = Inr (JStr s)))"
proof -
  have sl: "is_dict x \<longrightarrow>
        \<not> truthy (dict_get x ''generated_text'') \<or> (\<exists>s. dict_get x ''generated_text'' = JStr s) \<longrightarrow>
        (\<exists>s. hf_result py_str (JList (x # xs)) = Inr (JStr s))"
    by (auto simp: hf_result_list)
  have sd: "\<not> truthy (dict_get (JDict kvs) ''error'') \<longrightarrow>
        \<not> truthy (dict_get (JDict kvs) ''generated_text'')
          \<or> (\<exists>s. dict_get (JDict kvs) ''generated_text'' = JStr s) \<longrightarrow>
        \<not> truthy (dict_get (JDict kvs) ''text'') \<or> (\<exists>s. dict_get (JDict kvs) ''text'' = JStr s) \<longrightarrow>
        (\<exists>s. hf_result py_str (JDict kvs) = Inr (JStr s))"
    by (auto simp: hf_result_dict)
  have k: "api_key = None \<or> api_key = Some [] \<longrightarrow>
      hf_generate_text py_str json_loads api_key resp = Inl ApiKeyMissing"
    by (auto simp: hf_generate_text_def)
  have r: "api_key \<noteq> None \<longrightarrow> api_key \<noteq> Some [] \<longrightarrow>
        hf_generate_text py_str json_loads api_key ClientError = Inl TransportError
        \<and> (json_loads body = None \<longrightarrow>
             hf_generate_text py_str json_loads api_key (Body body) = Inl (NonJsonResponse (take 400 body)))
        \<and> (json_loads body = Some d \<longrightarrow>
             hf_generate_text py_str json_loads api_key (Body body) = hf_result py_str d)"
    by (simp add: hf_generate_text_def)
  from sl sd k r hf_result_error [of d py_str] hf_result_list [of x py_str xs] hf_result_dict [of kvs py_str]
    hf_result_other [of d py_str] hf_generate_text_not_None [of py_str json_loads api_key resp]
  show ?thesis by blast
qed

text \<open>
  The usual answers of the API: a list with one generated text, a body that is not JSON,
  and an error dict.
\<close>

theorem generation_result_witness:
  "(let body = ''[{'' @ [CHR 0x22] @ ''generated_text'' @ [CHR 0x22] @ '': '' @ [CHR 0x22] @ ''hola'' @ [CHR 0x22] @ ''}]'';
        x = JDict [(''generated_text'', JStr ''hola'')];
        loads = (\<lambda>t. if t = body then Some (JList [x]) else None)
    in loads body = Some (JList [x])
       \<and> is_dict x
       \<and> hf_generate_text (\<lambda>d. []) loads (Some ''hf_key'') (Body body) = Inr (JStr ''hola'')
       \<and> loads ''<html>'' = None
       \<and> hf_generate_text (\<lambda>d. []) loads (Some ''hf_key'') (Body ''<html>'') = Inl (NonJsonResponse ''<html>'')
       \<and> hf_generate_text (\<lambda>d. []) loads None (Body body) = Inl ApiKeyMissing
       \<and> truthy (dict_get (JDict [(''error'', JStr ''Model is loading'')]) ''error'')
       \<and> hf_result (\<lambda>d. []) (JDict [(''error'', JStr ''Model is loading'')])
            = Inl (HuggingFaceError (JStr ''Model is loading'')))"
proof -
  let ?body = "''[{'' @ [CHR 0x22] @ ''generated_text'' @ [CHR 0x22] @ '': '' @ [CHR 0x22] @ ''hola'' @ [CHR 0x22] @ ''}]''"
  let ?x = "JDict [(''generated_text'', JStr ''hola'')]"
  let ?loads = "\<lambda>t. if t = ?body then Some (JList [?x]) else None"
  have l1: "?loads ?body = Some (JList [?x])" by simp
  have l2: "?loads ''<html>'' = None" by simp
  have d: "is_dict ?x" by simp
  have t: "truthy (dict_get (JDict [(''error'', JStr ''Model is loading'')]) ''error'')" by simp
  from generation_result [where api_key = "Some ''hf_key''" and py_str = "\<lambda>d. []" and json_loads = ?loads
         and resp = "Body ?body" and body = ?body and d = "JList [?x]" and x = ?x and xs = "[]" and kvs = "[]"]
       generation_result [where api_key = "Some ''hf_key''" and py_str = "\<lambda>d. []" and json_loads = ?loads
         and resp = "Body ''<html>''" and body = "''<html>''"
         and d = "JDict [(''error'', JStr ''Model is loading'')]" and x = ?x and xs = "[]" and kvs = "[]"]
       generation_result [where api_key = None and py_str = "\<lambda>d. []" and json_loads = ?loads
         and resp = "Body ?body" and body = ?body and d = "JList [?x]" and x = ?x and xs = "[]" and kvs = "[]"]
       l1 l2 d t
  show ?thesis by (simp add: Let_def)
qed

text \<open>
  A body that decodes to \<^verbatim>\<open>[{"generated_text": 5}]\<close> makes the function return the
  integer 5, which is not a string; a dict with the field \<^verbatim>\<open>error\<close> set to \<^verbatim>\<open>null\<close> raises
  nothing, and its generated text is returned.
\<close>

theorem generation_result_counterexample:
  "(let body = ''[{'' @ [CHR 0x22] @ ''generated_text'' @ [CHR 0x22] @ '': 5}]'';
        loads = (\<lambda>t. if t = body then Some (JList [JDict [(''generated_text'', JInt 5)]]) else None)
    in hf_generate_text (\<lambda>d. []) loads (Some ''hf_key'') (Body body) = Inr (JInt 5))
   \<and> (let body = ''{'' @ [CHR 0x22] @ ''error'' @ [CHR 0x22] @ '': null, ''
                  @ [CHR 0x22] @ ''generated_text'' @ [CHR 0x22] @ '': '' @ [CHR 0x22] @ ''ok'' @ [CHR 0x22] @ ''}'';
            loads = (\<lambda>t. if t = body then Some (JDict [(''error'', JNull), (''generated_text'', JStr ''ok'')])
                          else None)
        in hf_generate_text (\<lambda>d. []) loads (Some ''hf_key'') (Body body) = Inr (JStr ''ok''))"
  by (simp add: Let_def hf_generate_text_def hf_result_def py_or_def)

section \<open>The state store\<close>

text \<open>
  C7. A document is JSON-representable when \<^verbatim>\<open>json.load\<close> gives it back from what
  \<^verbatim>\<open>json.dump\<close> wrote. For such a document \<^verbatim>\<open>load_state\<close> after \<^verbatim>\<open>save_state\<close> returns it
  and leaves the files as \<^verbatim>\<open>save_state\<close> left them. When the state file does not exist,
  \<^verbatim>\<open>load_state\<close> writes the default document to it and returns that document, which has no
  moderated chats, no histories and no reports.
\<close>

theorem state_round_trip:
  "(json_load e (json_dump e st) = Some st \<longrightarrow>
      load_state e (save_state e st fs) = (Inr st, save_state e st fs))
   \<and> (fs (STATE_FILE e) = None \<longrightarrow> json_load e (json_dump e DEFAULT_STATE) = Some DEFAULT_STATE \<longrightarrow>
        load_state e fs = (Inr DEFAULT_STATE, save_state e DEFAULT_STATE fs))
   \<and> save_state e st fs = fs(STATE_FILE e \<mapsto> json_dump e st)
   \<and> DEFAULT_STATE = \<lparr>moderated_chats = Some [], histories = Some Map.empty, reports = Some []\<rparr>"
  by (simp add: load_state_def save_state_def DEFAULT_STATE_def)

text \<open>With documents stored as they are, for a state with one moderated chat and one history.\<close>

theorem state_round_trip_witness:
  "(let e = \<lparr>STATE_FILE = ''state.json'', RECOVERY_ADMIN_IDS = [], json_dump = (\<lambda>d. d), json_load = Some\<rparr>;
        st = \<lparr>moderated_chats = Some [-1005],
              histories = Some [''-1005'' \<mapsto> [\<lparr>role = ''user'', content = ''hola''\<rparr>]],
              reports = Some []\<rparr>
    in json_load e (json_dump e st) = Some st
       \<and> load_state e (save_state e st Map.empty) = (Inr st, [''state.json'' \<mapsto> st])
       \<and> json_load e (json_dump e DEFAULT_STATE) = Some DEFAULT_STATE
       \<and> load_state e Map.empty = (Inr DEFAULT_STATE, [''state.json'' \<mapsto> DEFAULT_STATE]))"
proof -
  let ?e = "\<lparr>STATE_FILE = ''state.json'', RECOVERY_ADMIN_IDS = [], json_dump = (\<lambda>d. d), json_load = Some\<rparr>
             :: state env"
  let ?st = "\<lparr>moderated_chats = Some [-1005],
              histories = Some [''-1005'' \<mapsto> [\<lparr>role = ''user'', content = ''hola''\<rparr>]],
              reports = Some []\<rparr>"
  have r1: "json_load ?e (json_dump ?e ?st) = Some ?st" by simp
  have r2: "json_load ?e (json_dump ?e DEFAULT_STATE) = Some DEFAULT_STATE" by simp
  have n: "(Map.empty :: string \<rightharpoonup> state) (STATE_FILE ?e) = None" by simp
  from state_round_trip [of ?e ?st Map.empty] r1 r2 n
  show ?thesis by (simp add: Let_def save_state_def)
qed

end
